theory Spec2Isabelle
  imports Complex_Main
begin

section \<open>Conventions of the embedding\<close>

text \<open>
  The program is the model and loss subsystem of \<^verbatim>\<open>src/models.py\<close>: a PyTorch module.
  Tensors of 32-bit floats are embedded as exact reals: rounding, overflow and infinities
  are not modelled. What exact arithmetic cannot do is kept as a value of \<open>error\<close>:
  an exception the Python raises, and \<open>NotANumber\<close> for the NaN that a tensor
  operation returns where the exact quotient is \<open>0/0\<close> (the mean of an empty tensor,
  the scale of a point set with no variance). A NaN is a value in Python, not an
  exception; every operation after it in the functions below propagates it to the
  result, so it is carried on the \<open>Inl\<close> side like an exception.
\<close>

datatype error = ZeroDivisionError | AssertionError | IndexError | RuntimeError | NotANumber

section \<open>Trainer: \<^verbatim>\<open>BaseModel.train_epoch\<close>\<close>

text \<open>
  The dataset classes (\<^verbatim>\<open>datasets.py\<close>) are not among the sources. The four operations
  that \<^verbatim>\<open>train_epoch\<close> uses of a dataset are parameters: \<^verbatim>\<open>len(dataset)\<close>,
  \<^verbatim>\<open>dataset.prepare_for_epoch()\<close> (which mutates the dataset, so it returns the new one),
  \<^verbatim>\<open>dataset[start:end]\<close> and \<^verbatim>\<open>len(batch)\<close>.
\<close>

record ('d, 'b) dataset_ops =
  ds_len :: "'d \<Rightarrow> nat"
  prepare_for_epoch :: "'d \<Rightarrow> 'd"
  ds_slice :: "'d \<Rightarrow> int \<Rightarrow> int \<Rightarrow> 'b"
  batch_len :: "'b \<Rightarrow> nat"

text \<open>
  \<^verbatim>\<open>process_batch\<close> is the subclass's forward pass, Jacobian and loss under the
  current parameters \<open>'m\<close>; it returns the loss value or raises.
  \<^verbatim>\<open>optimizer.zero_grad(); loss.backward(); optimizer.step()\<close> mutate the parameters and
  the optimizer's state (both in \<open>'m\<close>) from the loss of this batch: \<open>optimizer_step\<close>.
  A \<open>process_batch\<close> that returns \<open>Inl e\<close> ends the epoch with \<open>e\<close>. A NaN loss does not
  stop the Python loop, which goes on with it, so the properties of the trainer below are
  about epochs whose losses are numbers.
\<close>

record ('m, 'b) trainer_ops =
  process_batch :: "'m \<Rightarrow> 'b \<Rightarrow> error + real"
  optimizer_step :: "'m \<Rightarrow> 'b \<Rightarrow> 'm"

text \<open>Line 169: \<^verbatim>\<open>num_batches = max(len(dataset) // batch_size, 1)\<close>; \<^verbatim>\<open>//\<close> is floor
  division (as \<open>div\<close> on \<open>int\<close>) and raises on a zero divisor.\<close>

definition num_batches :: "int \<Rightarrow> int \<Rightarrow> error + int" where
  "num_batches L batch_size =
     (if batch_size = 0 then Inl ZeroDivisionError else Inr (max (L div batch_size) 1))"

text \<open>Lines 172-174: the batch of index \<open>batch_inx\<close>.\<close>

definition get_batch :: "('d, 'b) dataset_ops \<Rightarrow> 'd \<Rightarrow> int \<Rightarrow> nat \<Rightarrow> 'b" where
  "get_batch D dataset batch_size batch_inx =
     (let start_inx = int batch_inx * batch_size;
          end_inx = (int batch_inx + 1) * batch_size
      in ds_slice D dataset start_inx end_inx)"

text \<open>Lines 171-182: the loop over \<^verbatim>\<open>range(num_batches)\<close>, with the parameters, the
  running \<^verbatim>\<open>total_loss\<close> and \<^verbatim>\<open>total_samples\<close> as the state.\<close>

fun epoch_loop ::
  "('d, 'b) dataset_ops \<Rightarrow> ('m, 'b) trainer_ops \<Rightarrow> 'd \<Rightarrow> int \<Rightarrow> nat list \<Rightarrow>
   'm \<times> real \<times> nat \<Rightarrow> error + ('m \<times> real \<times> nat)" where
  "epoch_loop D T dataset batch_size [] st = Inr st"
| "epoch_loop D T dataset batch_size (batch_inx # rest) (m, total_loss, total_samples) =
     (let batch = get_batch D dataset batch_size batch_inx in
      case process_batch T m batch of
        Inl e \<Rightarrow> Inl e
      | Inr loss \<Rightarrow>
          epoch_loop D T dataset batch_size rest
            (optimizer_step T m batch,
             total_loss + loss * real (batch_len D batch),
             total_samples + batch_len D batch))"

text \<open>Lines 164-183. The result is the returned float and the parameters as the epoch
  left them. \<^verbatim>\<open>total_loss / total_samples\<close> divides a float by an int and raises
  \<^verbatim>\<open>ZeroDivisionError\<close> on zero.\<close>

definition train_epoch ::
  "('d, 'b) dataset_ops \<Rightarrow> ('m, 'b) trainer_ops \<Rightarrow> 'm \<Rightarrow> 'd \<Rightarrow> int \<Rightarrow> error + (real \<times> 'm)" where
  "train_epoch D T m dataset batch_size =
     (case num_batches (int (ds_len D dataset)) batch_size of
        Inl e \<Rightarrow> Inl e
      | Inr n \<Rightarrow>
          (let dataset' = prepare_for_epoch D dataset in
           case epoch_loop D T dataset' batch_size [0 ..< nat n] (m, 0, 0) of
             Inl e \<Rightarrow> Inl e
           | Inr (m', total_loss, total_samples) \<Rightarrow>
               if total_samples = 0 then Inl ZeroDivisionError
               else Inr (total_loss / real total_samples, m')))"

text \<open>The parameters before the batch of index \<open>k\<close>: \<open>k\<close> optimizer steps from \<open>m\<close>.\<close>

definition params_before ::
  "('d, 'b) dataset_ops \<Rightarrow> ('m, 'b) trainer_ops \<Rightarrow> 'd \<Rightarrow> int \<Rightarrow> 'm \<Rightarrow> nat \<Rightarrow> 'm" where
  "params_before D T dataset batch_size m k =
     fold (\<lambda>i m'. optimizer_step T m' (get_batch D dataset batch_size i)) [0 ..< k] m"

text \<open>
  Modelled from the spec: the dataset classes of \<^verbatim>\<open>datasets.py\<close> are missing. The spec has
  a dataset as a sliceable sequence of samples with \<^verbatim>\<open>len()\<close> and
  \<^verbatim>\<open>prepare_for_epoch()\<close> (which may reorder or resample: the parameter \<open>prep\<close>), a batch
  as the samples of a slice, and a slice that runs beyond the dataset truncated. The
  slice is Python's: a negative bound counts from the end, and both bounds are clipped
  to the length.
\<close>

definition py_slice :: "'a list \<Rightarrow> int \<Rightarrow> int \<Rightarrow> 'a list" where
  "py_slice xs start stop =
     (let n = int (length xs);
          lo = (if start < 0 then max (start + n) 0 else min start n);
          hi = (if stop < 0 then max (stop + n) 0 else min stop n)
      in take (nat (hi - lo)) (drop (nat lo) xs))"

definition list_dataset :: "('a list \<Rightarrow> 'a list) \<Rightarrow> ('a list, 'a list) dataset_ops" where
  "list_dataset prep =
     \<lparr> ds_len = length, prepare_for_epoch = prep, ds_slice = py_slice, batch_len = length \<rparr>"

section \<open>Vectors and matrices of size 3\<close>

text \<open>
  Coordinates, targets and predictions are 3-vectors and Jacobians, actuations and the
  factors of a decomposition are 3-by-3 matrices in every mode of the program. A tensor
  of shape \<open>(N, 3)\<close> is a list of \<open>vec3\<close>, one of shape \<open>(N, 3, 3)\<close> a list of \<open>mat3\<close>
  (a matrix is its three rows).
\<close>

datatype vec3 = Vec3 (vx: real) (vy: real) (vz: real)

datatype mat3 = Mat3 (row1: vec3) (row2: vec3) (row3: vec3)

fun vadd :: "vec3 \<Rightarrow> vec3 \<Rightarrow> vec3" where
  "vadd (Vec3 a b c) (Vec3 x y z) = Vec3 (a + x) (b + y) (c + z)"

fun vsub :: "vec3 \<Rightarrow> vec3 \<Rightarrow> vec3" where
  "vsub (Vec3 a b c) (Vec3 x y z) = Vec3 (a - x) (b - y) (c - z)"

fun smul :: "real \<Rightarrow> vec3 \<Rightarrow> vec3" where
  "smul k (Vec3 x y z) = Vec3 (k * x) (k * y) (k * z)"

fun dot :: "vec3 \<Rightarrow> vec3 \<Rightarrow> real" where
  "dot (Vec3 a b c) (Vec3 x y z) = a * x + b * y + c * z"

text \<open>\<^verbatim>\<open>th.norm(v, dim=1)\<close> on a row: the Euclidean norm.\<close>

definition norm3 :: "vec3 \<Rightarrow> real" where
  "norm3 v = sqrt (dot v v)"

fun transpose3 :: "mat3 \<Rightarrow> mat3" where
  "transpose3 (Mat3 (Vec3 a b c) (Vec3 d e f) (Vec3 g h i)) =
     Mat3 (Vec3 a d g) (Vec3 b e h) (Vec3 c f i)"

text \<open>A matrix times a column (a tensor of shape \<open>(3, 1)\<close>).\<close>

fun mv :: "mat3 \<Rightarrow> vec3 \<Rightarrow> vec3" where
  "mv (Mat3 r1 r2 r3) v = Vec3 (dot r1 v) (dot r2 v) (dot r3 v)"

text \<open>\<^verbatim>\<open>A.mm(B)\<close>, \<^verbatim>\<open>A @ B\<close>, and \<^verbatim>\<open>bmm\<close> on one sample: row \<open>i\<close> of the product is
  the transpose of \<open>B\<close> applied to row \<open>i\<close> of \<open>A\<close>.\<close>

fun mm :: "mat3 \<Rightarrow> mat3 \<Rightarrow> mat3" where
  "mm (Mat3 r1 r2 r3) B =
     Mat3 (mv (transpose3 B) r1) (mv (transpose3 B) r2) (mv (transpose3 B) r3)"

fun msub :: "mat3 \<Rightarrow> mat3 \<Rightarrow> mat3" where
  "msub (Mat3 a b c) (Mat3 x y z) = Mat3 (vsub a x) (vsub b y) (vsub c z)"

fun det3 :: "mat3 \<Rightarrow> real" where
  "det3 (Mat3 (Vec3 a b c) (Vec3 d e f) (Vec3 g h i)) =
     a * (e * i - f * h) - b * (d * i - f * g) + c * (d * h - e * g)"

fun trace3 :: "mat3 \<Rightarrow> real" where
  "trace3 (Mat3 (Vec3 a b c) (Vec3 d e f) (Vec3 g h i)) = a + e + i"

definition eye3 :: mat3 where
  "eye3 = Mat3 (Vec3 1 0 0) (Vec3 0 1 0) (Vec3 0 0 1)"

text \<open>\<^verbatim>\<open>th.linalg.matrix_norm\<close> with its default order: the Frobenius norm.\<close>

fun matrix_norm :: "mat3 \<Rightarrow> real" where
  "matrix_norm (Mat3 a b c) = sqrt (dot a a + dot b b + dot c c)"

text \<open>\<^verbatim>\<open>.mean()\<close> of a one-dimensional tensor; the mean of no element is NaN.\<close>

definition mean :: "real list \<Rightarrow> error + real" where
  "mean xs = (if xs = [] then Inl NotANumber else Inr (sum_list xs / real (length xs)))"

section \<open>The singular value decomposition\<close>

text \<open>
  \<^verbatim>\<open>th.svd\<close> is PyTorch's, not this program's: it is a parameter \<open>svd\<close> of every function
  that calls it, returning \<open>(U, s, V)\<close>. What PyTorch documents of it is \<open>svd_at svd M\<close>:
  \<open>U\<close> and \<open>V\<close> orthogonal, \<open>M = U diag(s) V\<^sup>T\<close>, and the singular values non-negative in
  descending order. Theorems assume it only at the matrix the code decomposes.
\<close>

type_synonym svd_fn = "mat3 \<Rightarrow> mat3 \<times> vec3 \<times> mat3"

definition diag3 :: "vec3 \<Rightarrow> mat3" where
  "diag3 s = Mat3 (Vec3 (vx s) 0 0) (Vec3 0 (vy s) 0) (Vec3 0 0 (vz s))"

definition orthogonal3 :: "mat3 \<Rightarrow> bool" where
  "orthogonal3 Q \<longleftrightarrow> mm (transpose3 Q) Q = eye3 \<and> mm Q (transpose3 Q) = eye3"

definition rotation3 :: "mat3 \<Rightarrow> bool" where
  "rotation3 Q \<longleftrightarrow> orthogonal3 Q \<and> det3 Q = 1"

definition svd_at :: "svd_fn \<Rightarrow> mat3 \<Rightarrow> bool" where
  "svd_at svd M \<longleftrightarrow>
     (case svd M of (U, s, V) \<Rightarrow>
        orthogonal3 U \<and> orthogonal3 V \<and> M = mm U (mm (diag3 s) (transpose3 V)) \<and>
        vy s \<le> vx s \<and> vz s \<le> vy s \<and> 0 \<le> vz s)"

text \<open>The part of it that the determinant of the rotation rests on: orthogonal factors.\<close>

definition orthogonal_factors :: "svd_fn \<Rightarrow> mat3 \<Rightarrow> bool" where
  "orthogonal_factors svd M \<longleftrightarrow> (case svd M of (U, s, V) \<Rightarrow> orthogonal3 U \<and> orthogonal3 V)"

text \<open>
  The decomposition of a diagonal matrix whose entries are non-negative and in descending
  order: \<open>U = V = I\<close> and the diagonal. The closed examples below run the code with it, at
  such matrices only.
\<close>

definition svd_diag :: svd_fn where
  "svd_diag M = (eye3, Vec3 (vx (row1 M)) (vy (row2 M)) (vz (row3 M)), eye3)"

section \<open>The rotation fix shared by the three losses\<close>

text \<open>Lines 44-45, 75-77 and 90-92:
  \<^verbatim>\<open>Z = th.eye(3); Z[-1, -1] *= th.sign(th.det(U @ V.T))\<close>.\<close>

definition Z_fix :: "mat3 \<Rightarrow> mat3 \<Rightarrow> mat3" where
  "Z_fix U V =
     Mat3 (Vec3 1 0 0) (Vec3 0 1 0) (Vec3 0 0 (1 * sgn (det3 (mm U (transpose3 V)))))"

section \<open>\<^verbatim>\<open>procrustes_loss\<close>\<close>

text \<open>
  The function transposes its \<open>(N, 3)\<close> arguments and works on \<open>(3, N)\<close> tensors: three rows
  of \<open>N\<close> numbers. Each operation below is one tensor operation of the source on that
  layout.
\<close>

datatype rows3 = Rows3 (rx: "real list") (ry: "real list") (rz: "real list")

text \<open>\<^verbatim>\<open>S.T\<close> of an \<open>(N, 3)\<close> tensor, and \<^verbatim>\<open>X.T\<close> of a \<open>(3, N)\<close> tensor.\<close>

definition transposeT :: "vec3 list \<Rightarrow> rows3" where
  "transposeT S = Rows3 (map vx S) (map vy S) (map vz S)"

fun untranspose :: "rows3 \<Rightarrow> vec3 list" where
  "untranspose (Rows3 a b c) = map (\<lambda>(x, y, z). Vec3 x y z) (zip a (zip b c))"

text \<open>\<^verbatim>\<open>X.mean(axis=1, keepdims=True)\<close>: a column of the three row means.\<close>

definition mean_row :: "real list \<Rightarrow> real" where
  "mean_row xs = sum_list xs / real (length xs)"

fun mean_axis1 :: "rows3 \<Rightarrow> vec3" where
  "mean_axis1 (Rows3 a b c) = Vec3 (mean_row a) (mean_row b) (mean_row c)"

text \<open>\<^verbatim>\<open>X - mu\<close> and \<^verbatim>\<open>X + t\<close> with a column broadcast along the rows.\<close>

fun sub_col :: "rows3 \<Rightarrow> vec3 \<Rightarrow> rows3" where
  "sub_col (Rows3 a b c) (Vec3 x y z) =
     Rows3 (map (\<lambda>v. v - x) a) (map (\<lambda>v. v - y) b) (map (\<lambda>v. v - z) c)"

fun add_col :: "rows3 \<Rightarrow> vec3 \<Rightarrow> rows3" where
  "add_col (Rows3 a b c) (Vec3 x y z) =
     Rows3 (map (\<lambda>v. v + x) a) (map (\<lambda>v. v + y) b) (map (\<lambda>v. v + z) c)"

text \<open>\<^verbatim>\<open>th.sum(X ** 2)\<close>.\<close>

fun sum_squares :: "rows3 \<Rightarrow> real" where
  "sum_squares (Rows3 a b c) =
     sum_list (map (\<lambda>v. v ^ 2) a) + sum_list (map (\<lambda>v. v ^ 2) b) + sum_list (map (\<lambda>v. v ^ 2) c)"

text \<open>\<^verbatim>\<open>X1.mm(X2.T)\<close>: entry \<open>(i, j)\<close> is the inner product of row \<open>i\<close> of \<open>X1\<close> with row \<open>j\<close>
  of \<open>X2\<close>.\<close>

definition inner_rows :: "real list \<Rightarrow> real list \<Rightarrow> real" where
  "inner_rows xs ys = sum_list (map (\<lambda>(x, y). x * y) (zip xs ys))"

fun mm_T :: "rows3 \<Rightarrow> rows3 \<Rightarrow> mat3" where
  "mm_T (Rows3 a b c) (Rows3 x y z) =
     Mat3 (Vec3 (inner_rows a x) (inner_rows a y) (inner_rows a z))
          (Vec3 (inner_rows b x) (inner_rows b y) (inner_rows b z))
          (Vec3 (inner_rows c x) (inner_rows c y) (inner_rows c z))"

text \<open>\<^verbatim>\<open>R.mm(S)\<close> of a \<open>(3, 3)\<close> with a \<open>(3, N)\<close> tensor: row \<open>i\<close> is the combination of
  the rows of \<open>S\<close> with the coefficients of row \<open>i\<close> of \<open>R\<close>.\<close>

fun combine_rows :: "vec3 \<Rightarrow> rows3 \<Rightarrow> real list" where
  "combine_rows (Vec3 p q r) (Rows3 a b c) =
     map (\<lambda>(x, y, z). p * x + q * y + r * z) (zip a (zip b c))"

fun mm_rows :: "mat3 \<Rightarrow> rows3 \<Rightarrow> rows3" where
  "mm_rows (Mat3 r1 r2 r3) S = Rows3 (combine_rows r1 S) (combine_rows r2 S) (combine_rows r3 S)"

fun scale_rows :: "real \<Rightarrow> rows3 \<Rightarrow> rows3" where
  "scale_rows k (Rows3 a b c) = Rows3 (map (\<lambda>v. k * v) a) (map (\<lambda>v. k * v) b) (map (\<lambda>v. k * v) c)"

text \<open>Lines 19-27: the transposed argument with its mean removed.\<close>

definition centered :: "vec3 list \<Rightarrow> rows3" where
  "centered S = sub_col (transposeT S) (mean_axis1 (transposeT S))"

text \<open>Lines 41-47: the rotation from the decomposition of \<open>K\<close>.\<close>

definition procrustes_R :: "svd_fn \<Rightarrow> mat3 \<Rightarrow> mat3" where
  "procrustes_R svd K =
     (case svd K of (U, s, V) \<Rightarrow>
        let Z = Z_fix U V in mm V (mm Z (transpose3 U)))"

text \<open>
  Lines 10-66. The assertion compares the numbers of points. With no point the means are
  \<open>0/0\<close>, and with \<open>var1 = 0\<close> (all points of \<open>S1\<close> equal) the scale is \<open>0/0\<close>, since \<open>K\<close> is
  then the zero matrix: NaN, which the remaining operations carry to the result.
\<close>

definition procrustes_loss :: "svd_fn \<Rightarrow> vec3 list \<Rightarrow> vec3 list \<Rightarrow> error + real" where
  "procrustes_loss svd S1 S2 =
     (if length S2 \<noteq> length S1 then Inl AssertionError
      else if S1 = [] then Inl NotANumber
      else
        let mu1 = mean_axis1 (transposeT S1);
            mu2 = mean_axis1 (transposeT S2);
            X1 = centered S1;
            X2 = centered S2;
            var1 = sum_squares X1;
            K = mm_T X1 X2;
            R = procrustes_R svd K
        in if var1 = 0 then Inl NotANumber
           else
             let scale = trace3 (mm R K) / var1;
                 t = vsub mu2 (smul scale (mv R mu1));
                 S1_hat = add_col (scale_rows scale (mm_rows R (transposeT S1))) t
             in mean (map (\<lambda>(p, q). norm3 (vsub p q))
                        (zip (untranspose S1_hat) (untranspose (transposeT S2)))))"

text \<open>
  The algorithm in the words of the specification, on the points themselves: centre both
  sets on their centroids, \<open>var1\<close> the sum of the squared norms of the centred \<open>S1\<close>,
  \<open>K\<close> the transposed centred \<open>S1\<close> times the centred \<open>S2\<close> (the sum over the points of the
  outer products), the decomposition of \<open>K\<close>, \<open>R = V Z U\<^sup>T\<close>, \<open>scale = trace(R K) / var1\<close>,
  \<open>t = mu2 - scale R mu1\<close>, and the mean distance of \<open>scale R S1\<^sub>i + t\<close> from \<open>S2\<^sub>i\<close>.
\<close>

definition vsum :: "vec3 list \<Rightarrow> vec3" where
  "vsum ps = foldr vadd ps (Vec3 0 0 0)"

definition centroid :: "vec3 list \<Rightarrow> vec3" where
  "centroid ps = smul (1 / real (length ps)) (vsum ps)"

fun outer :: "vec3 \<Rightarrow> vec3 \<Rightarrow> mat3" where
  "outer (Vec3 a b c) y = Mat3 (smul a y) (smul b y) (smul c y)"

fun madd :: "mat3 \<Rightarrow> mat3 \<Rightarrow> mat3" where
  "madd (Mat3 a b c) (Mat3 x y z) = Mat3 (vadd a x) (vadd b y) (vadd c z)"

definition cross_covariance :: "vec3 list \<Rightarrow> vec3 list \<Rightarrow> mat3" where
  "cross_covariance xs ys =
     foldr madd (map (\<lambda>(x, y). outer x y) (zip xs ys))
       (Mat3 (Vec3 0 0 0) (Vec3 0 0 0) (Vec3 0 0 0))"

definition spec_procrustes :: "svd_fn \<Rightarrow> vec3 list \<Rightarrow> vec3 list \<Rightarrow> error + real" where
  "spec_procrustes svd S1 S2 =
     (let mu1 = centroid S1;
          mu2 = centroid S2;
          C1 = map (\<lambda>p. vsub p mu1) S1;
          C2 = map (\<lambda>q. vsub q mu2) S2;
          var1 = sum_list (map (\<lambda>x. dot x x) C1);
          K = cross_covariance C1 C2;
          R = (case svd K of (U, s, V) \<Rightarrow> mm V (mm (Z_fix U V) (transpose3 U)))
      in if S1 = [] \<or> var1 = 0 then Inl NotANumber
         else
           let scale = trace3 (mm R K) / var1;
               t = vsub mu2 (smul scale (mv R mu1))
           in Inr (sum_list (map (\<lambda>(p, q). norm3 (vsub (vadd (smul scale (mv R p)) t) q))
                               (zip S1 S2))
                   / real (length S1)))"

section \<open>\<^verbatim>\<open>deformation_loss\<close> and \<^verbatim>\<open>energy_loss\<close>\<close>

text \<open>
  Both work on a batch: \<^verbatim>\<open>th.svd\<close>, \<^verbatim>\<open>bmm\<close>, \<^verbatim>\<open>permute(0,2,1)\<close>, \<^verbatim>\<open>det\<close> and
  \<^verbatim>\<open>matrix_norm\<close> act on each sample of the batch.
\<close>

text \<open>Lines 75-80 and 90-94, from the factors of the batch.\<close>

definition batch_rotations :: "mat3 list \<Rightarrow> mat3 list \<Rightarrow> mat3 list" where
  "batch_rotations U V =
     (let Vt = map transpose3 V;
          Z = map (\<lambda>(u, v). Z_fix u v) (zip U V)
      in map (\<lambda>(u, zv). mm u zv) (zip U (map (\<lambda>(z, vt). mm z vt) (zip Z Vt))))"

text \<open>Lines 70-83.\<close>

definition deformation_loss :: "svd_fn \<Rightarrow> mat3 list \<Rightarrow> error + real" where
  "deformation_loss svd jacobian =
     (let USV = map svd jacobian;
          U = map fst USV;
          V = map (\<lambda>usv. snd (snd usv)) USV;
          R = batch_rotations U V
      in mean (map (\<lambda>(j, r). matrix_norm (msub j r)) (zip jacobian R)))"

text \<open>Lines 87-96. \<^verbatim>\<open>th.bmm\<close> raises when the two batches differ in size.\<close>

definition energy_loss :: "svd_fn \<Rightarrow> mat3 list \<Rightarrow> mat3 list \<Rightarrow> error + real" where
  "energy_loss svd jacobian actuations =
     (if length jacobian \<noteq> length actuations then Inl RuntimeError
      else
        let USV = map svd (map (\<lambda>(j, a). mm j a) (zip jacobian actuations));
            U = map fst USV;
            V = map (\<lambda>usv. snd (snd usv)) USV;
            R = batch_rotations U V
        in mean (map (\<lambda>(j, ra). matrix_norm (msub j ra))
                   (zip jacobian (map (\<lambda>(r, a). mm r a) (zip R actuations)))))"

text \<open>The rotation that both losses build for one sample \<open>M\<close> of the decomposed batch.\<close>

definition closest_rotation :: "svd_fn \<Rightarrow> mat3 \<Rightarrow> mat3" where
  "closest_rotation svd M =
     (case svd M of (U, s, V) \<Rightarrow> mm U (mm (Z_fix U V) (transpose3 V)))"

section \<open>Fourier encoding and the first layer\<close>

text \<open>
  A batch of coordinates is a tensor of shape \<open>(N, input_size)\<close>: a list of samples, each a
  list of \<open>input_size\<close> numbers.
\<close>

text \<open>Lines 145-146: \<^verbatim>\<open>np.pi * 2 ** th.arange(0, fourier_features)\<close>.\<close>

definition frequencies :: "nat \<Rightarrow> real list" where
  "frequencies fourier_features = map (\<lambda>k. pi * 2 ^ k) [0 ..< fourier_features]"

text \<open>
  Lines 143-150. \<^verbatim>\<open>features * x.unsqueeze(-1)\<close> has shape \<open>(N, input_size, F)\<close>; the
  concatenation along the last axis puts the \<open>F\<close> sines of a scalar before its \<open>F\<close>
  cosines; \<^verbatim>\<open>view(N, -1)\<close> flattens each sample, and raises on a batch of no sample
  (the \<open>-1\<close> is ambiguous for a tensor of no element whose first size is \<open>0\<close>).
\<close>

definition fourier_encode :: "nat \<Rightarrow> real list list \<Rightarrow> error + real list list" where
  "fourier_encode fourier_features x =
     (let features = frequencies fourier_features;
          xff = map (map (\<lambda>v. map (\<lambda>f. f * v) features)) x;
          xff_cat = map (map (\<lambda>fs. map sin fs @ map cos fs)) xff
      in if x = [] then Inl RuntimeError else Inr (map concat xff_cat))"

text \<open>The values that one scalar of a sample contributes: its sines, then its cosines.\<close>

definition encode_scalar :: "nat \<Rightarrow> real \<Rightarrow> real list" where
  "encode_scalar F v =
     map sin (map (\<lambda>f. f * v) (frequencies F)) @ map cos (map (\<lambda>f. f * v) (frequencies F))"

text \<open>Lines 124-127: the width that the first linear layer takes.\<close>

definition first_layer_in_features :: "bool \<Rightarrow> nat \<Rightarrow> nat \<Rightarrow> nat" where
  "first_layer_in_features with_fourier input_size fourier_features =
     (if \<not> with_fourier then input_size else input_size * 2 * fourier_features)"

section \<open>The loss compositions\<close>

text \<open>
  The weights of the three model classes, and the region tags of the three dataset
  classes. The tags are class constants of \<^verbatim>\<open>datasets.py\<close>, which is not among the
  sources: they are parameters.
\<close>

record weights =
  w_deformation :: real
  w_flame :: real
  w_boundary :: real
  w_jaw :: real
  w_skull :: real
  w_surface :: real
  w_energy :: real
  w_fixed :: real

record region_tags =
  FLAME_MASK :: int
  BOUNDARY_MASK :: int
  SKULL_MASK :: int
  JAW_MASK :: int
  SURFACE_MASK :: int
  FIXED_MASK :: int

text \<open>\<^verbatim>\<open>mask == TAG\<close> and \<^verbatim>\<open>where.sum()\<close>.\<close>

definition mask_eq :: "int list \<Rightarrow> int \<Rightarrow> bool list" where
  "mask_eq maskv tag = map (\<lambda>m. m = tag) maskv"

definition count_true :: "bool list \<Rightarrow> nat" where
  "count_true bs = length (filter (\<lambda>b. b) bs)"

text \<open>\<^verbatim>\<open>x[where]\<close> with a boolean tensor: the rows of \<open>x\<close> at the true positions; it raises
  \<^verbatim>\<open>IndexError\<close> when the mask and \<open>x\<close> differ in length.\<close>

definition select_rows :: "bool list \<Rightarrow> 'a list \<Rightarrow> error + 'a list" where
  "select_rows wh x =
     (if length wh \<noteq> length x then Inl IndexError
      else Inr (map snd (filter fst (zip wh x))))"

text \<open>\<^verbatim>\<open>th.nn.functional.l1_loss\<close> with its default reduction: the mean of the absolute
  differences of all entries. It raises on different shapes; on no entry it is NaN.\<close>

definition l1_loss :: "vec3 list \<Rightarrow> vec3 list \<Rightarrow> error + real" where
  "l1_loss P T =
     (if length P \<noteq> length T then Inl RuntimeError
      else mean (concat (map (\<lambda>(p, t). [\<bar>vx p - vx t\<bar>, \<bar>vy p - vy t\<bar>, \<bar>vz p - vz t\<bar>])
                           (zip P T))))"

text \<open>
  The pattern of lines 221-224, 226-229, 263-266, 268-271 and 306-309: a zero tensor,
  replaced by the L1 loss of the region when the region has a member, then multiplied by
  the weight.
\<close>

definition region_l1_term ::
  "real \<Rightarrow> bool list \<Rightarrow> vec3 list \<Rightarrow> vec3 list \<Rightarrow> error + real" where
  "region_l1_term w wh prediction target =
     (if count_true wh > 0 then
        (case select_rows wh prediction of
           Inl e \<Rightarrow> Inl e
         | Inr P \<Rightarrow>
             (case select_rows wh target of
                Inl e \<Rightarrow> Inl e
              | Inr T \<Rightarrow>
                  (case l1_loss P T of Inl e \<Rightarrow> Inl e | Inr l \<Rightarrow> Inr (l * w))))
      else Inr (0 * w))"

text \<open>Lines 273-276: \<^verbatim>\<open>jaw_loss\<close> of \<^verbatim>\<open>INRModel.compute_loss\<close>.\<close>

definition jaw_term ::
  "svd_fn \<Rightarrow> real \<Rightarrow> bool list \<Rightarrow> vec3 list \<Rightarrow> vec3 list \<Rightarrow> error + real" where
  "jaw_term svd w where_jaw prediction target =
     (if count_true where_jaw > 2 then
        (case select_rows where_jaw prediction of
           Inl e \<Rightarrow> Inl e
         | Inr P \<Rightarrow>
             (case select_rows where_jaw target of
                Inl e \<Rightarrow> Inl e
              | Inr T \<Rightarrow>
                  (case procrustes_loss svd P T of Inl e \<Rightarrow> Inl e | Inr l \<Rightarrow> Inr (l * w))))
      else Inr (0 * w))"

text \<open>Lines 217-234: \<^verbatim>\<open>SurfaceINRModel.compute_loss\<close>.\<close>

definition surface_compute_loss ::
  "svd_fn \<Rightarrow> weights \<Rightarrow> region_tags \<Rightarrow> vec3 list \<Rightarrow> vec3 list \<Rightarrow> int list \<Rightarrow> mat3 list \<Rightarrow>
   error + real" where
  "surface_compute_loss svd W G prediction target maskv jacobian =
     (let where_flame = mask_eq maskv (FLAME_MASK G);
          where_boundary = mask_eq maskv (BOUNDARY_MASK G)
      in case region_l1_term (w_flame W) where_flame prediction target of
           Inl e \<Rightarrow> Inl e
         | Inr flame_loss \<Rightarrow>
        (case region_l1_term (w_boundary W) where_boundary prediction target of
           Inl e \<Rightarrow> Inl e
         | Inr boundary_loss \<Rightarrow>
        (case deformation_loss svd jacobian of
           Inl e \<Rightarrow> Inl e
         | Inr d \<Rightarrow>
             let def_loss = d * w_deformation W
             in Inr (flame_loss + boundary_loss + def_loss))))"

text \<open>Lines 258-281: \<^verbatim>\<open>INRModel.compute_loss\<close>.\<close>

definition inr_compute_loss ::
  "svd_fn \<Rightarrow> weights \<Rightarrow> region_tags \<Rightarrow> vec3 list \<Rightarrow> vec3 list \<Rightarrow> int list \<Rightarrow> mat3 list \<Rightarrow>
   error + real" where
  "inr_compute_loss svd W G prediction target maskv jacobian =
     (let where_skull = mask_eq maskv (SKULL_MASK G);
          where_jaw = mask_eq maskv (JAW_MASK G);
          where_surface = mask_eq maskv (SURFACE_MASK G)
      in case region_l1_term (w_surface W) where_surface prediction target of
           Inl e \<Rightarrow> Inl e
         | Inr surface_loss \<Rightarrow>
        (case region_l1_term (w_skull W) where_skull prediction target of
           Inl e \<Rightarrow> Inl e
         | Inr skull_loss \<Rightarrow>
        (case jaw_term svd (w_jaw W) where_jaw prediction target of
           Inl e \<Rightarrow> Inl e
         | Inr jaw_loss \<Rightarrow>
        (case deformation_loss svd jacobian of
           Inl e \<Rightarrow> Inl e
         | Inr d \<Rightarrow>
             let def_loss = d * w_deformation W
             in Inr (surface_loss + skull_loss + jaw_loss + def_loss)))))"

text \<open>Lines 303-314: \<^verbatim>\<open>SimulatorModel.compute_loss\<close>.\<close>

definition simulator_compute_loss ::
  "svd_fn \<Rightarrow> weights \<Rightarrow> region_tags \<Rightarrow> vec3 list \<Rightarrow> vec3 list \<Rightarrow> int list \<Rightarrow> mat3 list \<Rightarrow>
   mat3 list \<Rightarrow> error + real" where
  "simulator_compute_loss svd W G prediction target maskv jacobian actuations =
     (let where_fixed = mask_eq maskv (FIXED_MASK G)
      in case region_l1_term (w_fixed W) where_fixed prediction target of
           Inl e \<Rightarrow> Inl e
         | Inr fixed_loss \<Rightarrow>
        (case energy_loss svd jacobian actuations of
           Inl e \<Rightarrow> Inl e
         | Inr en \<Rightarrow>
             let e_loss = en * w_energy W
             in Inr (fixed_loss + e_loss)))"

text \<open>The default weights of the three constructors (lines 202, 242 and 289), and tags
  for the closed examples (the tags of one dataset class are distinct).\<close>

definition default_weights :: weights where
  "default_weights =
     \<lparr> w_deformation = 2 / 100, w_flame = 1, w_boundary = 1, w_jaw = 1, w_skull = 2,
       w_surface = 10, w_energy = 1 / 2, w_fixed = 2 \<rparr>"

definition example_tags :: region_tags where
  "example_tags =
     \<lparr> FLAME_MASK = 0, BOUNDARY_MASK = 1, SKULL_MASK = 0, JAW_MASK = 1, SURFACE_MASK = 2,
       FIXED_MASK = 0 \<rparr>"

section \<open>Inputs of the closed examples\<close>

text \<open>Four points of the plane \<open>z = 0\<close>, and their image under the scale \<open>2\<close>, the identity
  rotation and the translation \<open>(1, 1, 1)\<close>.\<close>

definition example_S1 :: "vec3 list" where
  "example_S1 = [Vec3 1 0 0, Vec3 (- 1) 0 0, Vec3 0 1 0, Vec3 0 (- 1) 0]"

definition example_S2 :: "vec3 list" where
  "example_S2 = [Vec3 3 1 1, Vec3 (- 1) 1 1, Vec3 1 3 1, Vec3 1 (- 1) 1]"

text \<open>A stretch along the first axis, and the uniform scale \<open>2\<close>.\<close>

definition example_stretch :: mat3 where
  "example_stretch = Mat3 (Vec3 2 0 0) (Vec3 0 1 0) (Vec3 0 0 1)"

definition example_scale2 :: mat3 where
  "example_scale2 = Mat3 (Vec3 2 0 0) (Vec3 0 2 0) (Vec3 0 0 2)"

section \<open>Properties of the trainer\<close>

lemma params_before_Suc:
  "params_before D T ds B m (Suc k) =
     optimizer_step T (params_before D T ds B m k) (get_batch D ds B k)"
  by (simp add: params_before_def)

lemma epoch_loop_closed:
  assumes "\<forall>i. j \<le> i \<and> i < n \<longrightarrow>
             process_batch T (params_before D T ds B m i) (get_batch D ds B i) = Inr (loss i)"
  shows "j \<le> n \<Longrightarrow>
         epoch_loop D T ds B [j ..< n] (params_before D T ds B m j, tot, cnt) =
           Inr (params_before D T ds B m n,
                tot + (\<Sum>i = j ..< n. loss i * real (batch_len D (get_batch D ds B i))),
                cnt + (\<Sum>i = j ..< n. batch_len D (get_batch D ds B i)))"
  using assms
proof (induction "n - j" arbitrary: j tot cnt)
  case 0
  then show ?case by simp
next
  case (Suc d)
  then have lt: "j < n" by simp
  have step: "process_batch T (params_before D T ds B m j) (get_batch D ds B j) = Inr (loss j)"
    using Suc.prems(2) lt by simp
  have rest: "epoch_loop D T ds B [Suc j ..< n]
                (params_before D T ds B m (Suc j),
                 tot + loss j * real (batch_len D (get_batch D ds B j)),
                 cnt + batch_len D (get_batch D ds B j)) =
              Inr (params_before D T ds B m n,
                   (tot + loss j * real (batch_len D (get_batch D ds B j))) +
                     (\<Sum>i = Suc j ..< n. loss i * real (batch_len D (get_batch D ds B i))),
                   (cnt + batch_len D (get_batch D ds B j)) +
                     (\<Sum>i = Suc j ..< n. batch_len D (get_batch D ds B i)))"
    using Suc.hyps(1) [of "Suc j"] Suc.hyps(2) Suc.prems(2) lt by simp
  have s1: "(\<Sum>i = j ..< n. loss i * real (batch_len D (get_batch D ds B i))) =
            loss j * real (batch_len D (get_batch D ds B j)) +
            (\<Sum>i = Suc j ..< n. loss i * real (batch_len D (get_batch D ds B i)))"
    using lt by (simp add: sum.atLeast_Suc_lessThan)
  have s2: "(\<Sum>i = j ..< n. batch_len D (get_batch D ds B i)) =
            batch_len D (get_batch D ds B j) +
            (\<Sum>i = Suc j ..< n. batch_len D (get_batch D ds B i))"
    using lt by (simp add: sum.atLeast_Suc_lessThan)
  show ?case
    using lt step rest
    by (simp add: upt_conv_Cons params_before_Suc s1 s2 add.assoc Let_def)
qed

lemma py_slice_batch:
  assumes b: "0 < b"
  shows "py_slice xs (int i * int b) ((int i + 1) * int b) = take b (drop (i * b) xs)"
proof -
  have e1: "int i * int b = int (i * b)" by simp
  have e2: "(int i + 1) * int b = int ((i + 1) * b)" by (simp add: algebra_simps)
  have "py_slice xs (int (i * b)) (int ((i + 1) * b)) =
        take (min ((i + 1) * b) (length xs) - min (i * b) (length xs))
          (drop (min (i * b) (length xs)) xs)"
    unfolding py_slice_def Let_def
    by (simp add: min_def nat_diff_distrib' del: of_nat_mult of_nat_add)
  also have "\<dots> = take b (drop (i * b) xs)"
    by (cases "i * b \<le> length xs") (auto simp: min_def)
  finally show ?thesis unfolding e1 e2 .
qed

lemma concat_batches:
  "concat (map (\<lambda>i. take b (drop (i * b) xs)) [0 ..< k]) = take (k * b) xs"
proof (induction k)
  case 0
  then show ?case by simp
next
  case (Suc k)
  have "take (k * b + b) xs = take (k * b) xs @ take b (drop (k * b) xs)"
    by (rule take_add)
  moreover have "Suc k * b = k * b + b" by simp
  ultimately show ?case using Suc by (simp add: add.commute)
qed

lemma get_batch_list:
  "0 < b \<Longrightarrow> get_batch (list_dataset prep) xs (int b) i = take b (drop (i * b) xs)"
  by (simp add: get_batch_def list_dataset_def py_slice_batch)

lemma train_epoch_closed:
  assumes B: "0 < B"
    and n: "n = nat (max (int (ds_len D ds) div B) 1)"
    and ds': "ds' = prepare_for_epoch D ds"
    and ok: "\<forall>i<n. process_batch T (params_before D T ds' B m i)
                      (ds_slice D ds' (int i * B) ((int i + 1) * B)) = Inr (loss i)"
  shows "train_epoch D T m ds B =
     (if (\<Sum>i<n. batch_len D (ds_slice D ds' (int i * B) ((int i + 1) * B))) = 0
      then Inl ZeroDivisionError
      else Inr ((\<Sum>i<n. loss i * real (batch_len D (ds_slice D ds' (int i * B) ((int i + 1) * B))))
                  / real (\<Sum>i<n. batch_len D (ds_slice D ds' (int i * B) ((int i + 1) * B))),
                params_before D T ds' B m n))"
proof -
  have gb: "\<And>i. get_batch D ds' B i = ds_slice D ds' (int i * B) ((int i + 1) * B)"
    by (simp add: get_batch_def)
  have nb: "num_batches (int (ds_len D ds)) B = Inr (max (int (ds_len D ds) div B) 1)"
    using B by (simp add: num_batches_def)
  have p0: "params_before D T ds' B m 0 = m"
    by (simp add: params_before_def)
  have "epoch_loop D T ds' B [0 ..< n] (params_before D T ds' B m 0, 0, 0) =
          Inr (params_before D T ds' B m n,
               0 + (\<Sum>i = 0 ..< n. loss i * real (batch_len D (get_batch D ds' B i))),
               0 + (\<Sum>i = 0 ..< n. batch_len D (get_batch D ds' B i)))"
    by (rule epoch_loop_closed) (use ok gb in auto)
  then have loop: "epoch_loop D T ds' B [0 ..< n] (m, 0, 0) =
          Inr (params_before D T ds' B m n,
               (\<Sum>i<n. loss i * real (batch_len D (ds_slice D ds' (int i * B) ((int i + 1) * B)))),
               (\<Sum>i<n. batch_len D (ds_slice D ds' (int i * B) ((int i + 1) * B))))"
    by (simp add: p0 gb atLeast0LessThan)
  show ?thesis
    unfolding train_epoch_def nb Let_def
    using loop by (simp add: n ds')
qed

text \<open>
  Claim C3. With a positive batch size, \<^verbatim>\<open>train_epoch\<close> processes the
  \<open>max (L div B) 1\<close> batches \<^verbatim>\<open>dataset[i*B : (i+1)*B]\<close> of the prepared dataset, in order
  of \<open>i\<close>, each under the parameters that the optimizer steps of the batches before it
  left. When every \<^verbatim>\<open>process_batch\<close> returns, it accumulates the loss of each batch times
  \<^verbatim>\<open>len(batch)\<close> and the sum of the \<^verbatim>\<open>len(batch)\<close>, and returns the first total divided by
  the second: the sample-weighted mean of the batch losses. The division is Python's: it
  raises \<^verbatim>\<open>ZeroDivisionError\<close> when the batches hold no sample at all.
\<close>

theorem train_epoch_sample_weighted_mean:
  assumes B: "0 < B"
    and n: "n = nat (max (int (ds_len D ds) div B) 1)"
    and ds': "ds' = prepare_for_epoch D ds"
    and ok: "\<forall>i<n. process_batch T (params_before D T ds' B m i)
                      (ds_slice D ds' (int i * B) ((int i + 1) * B)) = Inr (loss i)"
  shows "train_epoch D T m ds B =
     (if (\<Sum>i<n. batch_len D (ds_slice D ds' (int i * B) ((int i + 1) * B))) = 0
      then Inl ZeroDivisionError
      else Inr ((\<Sum>i<n. loss i * real (batch_len D (ds_slice D ds' (int i * B) ((int i + 1) * B))))
                  / real (\<Sum>i<n. batch_len D (ds_slice D ds' (int i * B) ((int i + 1) * B))),
                params_before D T ds' B m n))"
  using assms by (rule train_epoch_closed)

theorem train_epoch_sample_weighted_mean_witness:
  "train_epoch (list_dataset rev)
     \<lparr>process_batch = (\<lambda>m b. Inr (sum_list b + real m)), optimizer_step = (\<lambda>m b. Suc m)\<rparr>
     0 [1, 2, 3, 4, 5 :: real] 2 = Inr (15 / 2, 2)"
proof -
  let ?D = "list_dataset rev :: (real list, real list) dataset_ops"
  let ?T = "\<lparr>process_batch = (\<lambda>m b. Inr (sum_list b + real m)), optimizer_step = (\<lambda>m b. Suc m)\<rparr>
              :: (nat, real list) trainer_ops"
  have pb: "params_before ?D ?T [5, 4, 3, 2, 1] 2 0 k = k" for k
    by (induction k) (simp_all add: params_before_Suc, simp add: params_before_def)
  have ops: "ds_len ?D = length" "prepare_for_epoch ?D = rev" "ds_slice ?D = py_slice"
    "batch_len ?D = length"
    by (simp_all add: list_dataset_def)
  have s0: "py_slice [5, 4, 3, 2, 1 :: real] 0 2 = [5, 4]"
    by (simp add: py_slice_def)
  have s1: "py_slice [5, 4, 3, 2, 1 :: real] 2 4 = [3, 2]"
    by (simp add: py_slice_def)
  have two: "{..<2::nat} = {0, 1}" by auto
  have h2: "(2::nat) = nat (max (int (ds_len ?D [1, 2, 3, 4, 5]) div 2) 1)"
    by (simp add: ops)
  have h3: "[5, 4, 3, 2, 1] = prepare_for_epoch ?D [1, 2, 3, 4, 5]"
    by (simp add: ops)
  have h4: "\<forall>i<2. process_batch ?T (params_before ?D ?T [5, 4, 3, 2, 1] 2 0 i)
              (ds_slice ?D [5, 4, 3, 2, 1] (int i * 2) ((int i + 1) * 2)) =
            Inr (if i = 0 then 9 else 6)"
    unfolding pb ops by (simp add: less_2_cases_iff s0 s1)
  show ?thesis
    using train_epoch_sample_weighted_mean [of 2 2 ?D "[1, 2, 3, 4, 5]" "[5, 4, 3, 2, 1]" ?T 0
        "\<lambda>i. if i = 0 then 9 else 6", OF _ h2 h3 h4]
    unfolding pb ops by (simp add: two s0 s1)
qed

lemma list_dataset_batches:
  assumes B: "0 < B"
    and len: "length (prep ds) = length ds"
    and n: "num_batches (int (length ds)) B = Inr n"
  shows "(B \<le> int (length ds) \<longrightarrow>
            (\<forall>i < nat n. length (get_batch (list_dataset prep) (prep ds) B i) = nat B) \<and>
            concat (map (get_batch (list_dataset prep) (prep ds) B) [0 ..< nat n]) =
              take (nat (int (length ds) div B * B)) (prep ds)) \<and>
         (int (length ds) < B \<longrightarrow>
            nat n = 1 \<and> get_batch (list_dataset prep) (prep ds) B 0 = prep ds)"
proof -
  define b where "b = nat B"
  have Bb: "B = int b" and b: "0 < b" using B by (simp_all add: b_def)
  define q where "q = length ds div b"
  have div: "int (length ds) div B = int q"
    by (simp add: Bb q_def zdiv_int)
  have nval: "n = max (int q) 1"
    using n B by (simp add: num_batches_def div)
  have gb: "\<And>i. get_batch (list_dataset prep) (prep ds) B i = take b (drop (i * b) (prep ds))"
    unfolding Bb by (rule get_batch_list [OF b])
  have full: "B \<le> int (length ds) \<Longrightarrow>
      (\<forall>i < nat n. length (get_batch (list_dataset prep) (prep ds) B i) = nat B) \<and>
      concat (map (get_batch (list_dataset prep) (prep ds) B) [0 ..< nat n]) =
        take (nat (int (length ds) div B * B)) (prep ds)"
  proof -
    assume "B \<le> int (length ds)"
    then have ble: "b \<le> length ds" by (simp add: Bb)
    then have q1: "1 \<le> q" using b by (simp add: q_def Suc_leI div_greater_zero_iff)
    then have nq: "nat n = q" by (simp add: nval)
    have qb: "q * b \<le> length ds" by (simp add: q_def)
    have "\<forall>i < q. length (take b (drop (i * b) (prep ds))) = b"
    proof (intro allI impI)
      fix i assume "i < q"
      then have "Suc i \<le> q" by simp
      then have "Suc i * b \<le> q * b" by (rule mult_le_mono1)
      then have "i * b + b \<le> length ds" using qb by simp
      then show "length (take b (drop (i * b) (prep ds))) = b"
        by (simp add: len)
    qed
    moreover have "nat (int q * int b) = q * b"
      by (simp add: nat_mult_distrib)
    ultimately show ?thesis
      unfolding gb nq concat_batches div by (simp add: Bb)
  qed
  have short: "int (length ds) < B \<Longrightarrow>
      nat n = 1 \<and> get_batch (list_dataset prep) (prep ds) B 0 = prep ds"
  proof -
    assume "int (length ds) < B"
    then have lt: "length ds < b" by (simp add: Bb)
    then have "q = 0" by (simp add: q_def)
    then show ?thesis using lt by (simp add: nval gb len)
  qed
  show ?thesis using full short by blast
qed

text \<open>
  Claim C10. For a dataset held as a sequence of \<open>L\<close> samples, whose preparation keeps
  its length, and a positive batch size \<open>B \<le> L\<close>: each of the \<open>L div B\<close> batches of
  \<^verbatim>\<open>train_epoch\<close> holds exactly \<open>B\<close> samples, and the batches together are the first
  \<open>(L div B) * B\<close> samples of the prepared dataset, so its last \<open>L mod B\<close> samples are in
  no batch; when every \<^verbatim>\<open>process_batch\<close> returns, \<^verbatim>\<open>train_epoch\<close> counts \<open>(L div B) * B\<close>
  samples and returns the sum of the losses times \<open>B\<close> over that count. A batch shorter
  than \<open>B\<close> occurs only when \<open>L < B\<close>: then there is one batch, the whole prepared
  dataset.
\<close>

theorem train_epoch_full_batches:
  assumes B: "0 < B"
    and len: "length (prep ds) = length ds"
    and n: "num_batches (int (length ds)) B = Inr n"
    and ok: "\<forall>i < nat n. process_batch T (params_before (list_dataset prep) T (prep ds) B m i)
               (get_batch (list_dataset prep) (prep ds) B i) = Inr (loss i)"
  shows "(B \<le> int (length ds) \<longrightarrow>
            (\<forall>i < nat n. length (get_batch (list_dataset prep) (prep ds) B i) = nat B) \<and>
            concat (map (get_batch (list_dataset prep) (prep ds) B) [0 ..< nat n]) =
              take (nat (int (length ds) div B * B)) (prep ds) \<and>
            train_epoch (list_dataset prep) T m ds B =
              Inr ((\<Sum>i < nat n. loss i * real (nat B)) / real (nat n * nat B),
                   params_before (list_dataset prep) T (prep ds) B m (nat n))) \<and>
         (int (length ds) < B \<longrightarrow>
            nat n = 1 \<and> get_batch (list_dataset prep) (prep ds) B 0 = prep ds)"
proof -
  let ?D = "list_dataset prep"
  note lb = list_dataset_batches [of B prep ds n, OF B len n]
  have ops: "ds_len ?D = length" "prepare_for_epoch ?D = prep" "batch_len ?D = length"
    by (simp_all add: list_dataset_def)
  have nn: "nat n = nat (max (int (ds_len ?D ds) div B) 1)"
    using n B by (simp add: num_batches_def ops)
  have n1: "0 < nat n" using n B by (auto simp: num_batches_def)
  have gb: "ds_slice ?D (prep ds) (int i * B) ((int i + 1) * B) = get_batch ?D (prep ds) B i" for i
    by (simp add: get_batch_def)
  have te: "train_epoch ?D T m ds B =
     (if (\<Sum>i < nat n. batch_len ?D (get_batch ?D (prep ds) B i)) = 0
      then Inl ZeroDivisionError
      else Inr ((\<Sum>i < nat n. loss i * real (batch_len ?D (get_batch ?D (prep ds) B i)))
                  / real (\<Sum>i < nat n. batch_len ?D (get_batch ?D (prep ds) B i)),
                params_before ?D T (prep ds) B m (nat n)))"
    using train_epoch_closed [of B "nat n" ?D ds "prep ds" T m loss, OF B nn] ok
    unfolding gb by (simp add: ops)
  have "train_epoch ?D T m ds B =
          Inr ((\<Sum>i < nat n. loss i * real (nat B)) / real (nat n * nat B),
               params_before ?D T (prep ds) B m (nat n))"
    if "B \<le> int (length ds)"
  proof -
    from lb that have l: "\<forall>i < nat n. length (get_batch ?D (prep ds) B i) = nat B" by blast
    then have s1: "(\<Sum>i < nat n. batch_len ?D (get_batch ?D (prep ds) B i)) = nat n * nat B"
      by (simp add: ops)
    from l have s2: "(\<Sum>i < nat n. loss i * real (batch_len ?D (get_batch ?D (prep ds) B i))) =
                     (\<Sum>i < nat n. loss i * real (nat B))"
      by (simp add: ops)
    have "nat n * nat B \<noteq> 0" using n1 B by simp
    then show ?thesis unfolding te s1 s2 by simp
  qed
  with lb show ?thesis by blast
qed

theorem train_epoch_full_batches_witness:
  "num_batches (int (length [1, 2, 3, 4, 5 :: real])) 2 = Inr 2 \<and>
   length (get_batch (list_dataset rev) (rev [1, 2, 3, 4, 5 :: real]) 2 1) = 2 \<and>
   concat (map (get_batch (list_dataset rev) (rev [1, 2, 3, 4, 5 :: real]) 2) [0 ..< 2]) =
     [5, 4, 3, 2] \<and>
   train_epoch (list_dataset rev)
     \<lparr>process_batch = (\<lambda>m b. Inr (sum_list b + real m)), optimizer_step = (\<lambda>m b. Suc m)\<rparr>
     0 [1, 2, 3, 4, 5 :: real] 2 = Inr (15 / 2, 2) \<and>
   num_batches (int (length [1, 2, 3 :: real])) 5 = Inr 1 \<and>
   get_batch (list_dataset rev) (rev [1, 2, 3 :: real]) 5 0 = [3, 2, 1]"
proof -
  let ?D = "list_dataset rev :: (real list, real list) dataset_ops"
  let ?T = "\<lparr>process_batch = (\<lambda>m b. Inr (sum_list b + real m)), optimizer_step = (\<lambda>m b. Suc m)\<rparr>
              :: (nat, real list) trainer_ops"
  have n: "num_batches (int (length [1, 2, 3, 4, 5 :: real])) 2 = Inr 2"
    by (simp add: num_batches_def)
  have n': "num_batches (int (length [1, 2, 3 :: real])) 5 = Inr 1"
    by (simp add: num_batches_def)
  have pb: "params_before ?D ?T xs B 0 k = k" for k xs B
    by (induction k) (simp_all add: params_before_Suc, simp add: params_before_def)
  have g: "get_batch ?D [5, 4, 3, 2, 1] 2 0 = [5, 4]"
    "get_batch ?D [5, 4, 3, 2, 1] 2 (Suc 0) = [3, 2]"
    "get_batch ?D [5, 4, 3, 2, 1] 2 1 = [3, 2]"
    "get_batch ?D [3, 2, 1] 5 0 = [3, 2, 1]"
    by (simp_all add: get_batch_def list_dataset_def py_slice_def)
  have ok: "\<forall>i < nat 2. process_batch ?T (params_before ?D ?T (rev [1, 2, 3, 4, 5]) 2 0 i)
               (get_batch ?D (rev [1, 2, 3, 4, 5]) 2 i) = Inr (if i = 0 then 9 else 6)"
    unfolding pb by (simp add: less_2_cases_iff g)
  have ok': "\<forall>i < nat 1. process_batch ?T (params_before ?D ?T (rev [1, 2, 3]) 5 0 i)
               (get_batch ?D (rev [1, 2, 3]) 5 i) = Inr 6"
    unfolding pb by (simp add: g)
  have two: "{..<2::nat} = {0, 1}" by auto
  have t: "take (nat (int (length [1, 2, 3, 4, 5 :: real]) div 2 * 2)) (rev [1, 2, 3, 4, 5 :: real]) =
        [5, 4, 3, 2]"
    by simp
  show ?thesis
    using train_epoch_full_batches [of 2 rev "[1, 2, 3, 4, 5]" 2 ?T 0
        "\<lambda>i. if i = 0 then 9 else 6", OF _ _ n ok] n
      train_epoch_full_batches [of 5 rev "[1, 2, 3]" 1 ?T 0 "\<lambda>i. 6", OF _ _ n' ok'] n'
    unfolding pb by (simp add: t two g)
qed

lemma batch_rotations_map:
  "batch_rotations (map fst (map svd Ms)) (map (\<lambda>usv. snd (snd usv)) (map svd Ms)) =
     map (closest_rotation svd) Ms"
  by (induction Ms) (simp_all add: batch_rotations_def closest_rotation_def split: prod.splits)

lemma zip_map_same: "map f (zip xs (map g xs)) = map (\<lambda>x. f (x, g x)) xs"
  by (induction xs) simp_all

lemma deformation_loss_per_sample:
  "deformation_loss svd jacobian =
     mean (map (\<lambda>J. matrix_norm (msub J (closest_rotation svd J))) jacobian)"
  unfolding deformation_loss_def Let_def batch_rotations_map zip_map_same by simp

lemma energy_rotations:
  "length js = length as \<Longrightarrow>
   map (\<lambda>(j, ra). matrix_norm (msub j ra))
     (zip js (map (\<lambda>(r, a). mm r a)
        (zip (map (closest_rotation svd) (map (\<lambda>(j, a). mm j a) (zip js as))) as))) =
   map (\<lambda>(j, a). matrix_norm (msub j (mm (closest_rotation svd (mm j a)) a))) (zip js as)"
  by (induction js as rule: list_induct2) simp_all

lemma energy_loss_per_sample:
  "energy_loss svd jacobian actuations =
     (if length jacobian \<noteq> length actuations then Inl RuntimeError
      else mean (map (\<lambda>(j, a). matrix_norm (msub j (mm (closest_rotation svd (mm j a)) a)))
                   (zip jacobian actuations)))"
proof (cases "length jacobian = length actuations")
  case True
  then show ?thesis
    unfolding energy_loss_def Let_def batch_rotations_map
    by (simp only: energy_rotations [OF True] if_False not_not refl)
next
  case False
  then show ?thesis by (simp add: energy_loss_def)
qed

lemma count_true_mask_eq: "count_true (mask_eq maskv tag) = length (filter (\<lambda>m. m = tag) maskv)"
  by (induction maskv) (simp_all add: count_true_def mask_eq_def)

lemma count_true_zero: "tag \<notin> set maskv \<Longrightarrow> count_true (mask_eq maskv tag) = 0"
  by (induction maskv) (simp_all add: count_true_def mask_eq_def)

lemma region_l1_term_empty:
  "tag \<notin> set maskv \<Longrightarrow> region_l1_term w (mask_eq maskv tag) prediction target = Inr 0"
  by (simp add: region_l1_term_def count_true_zero)

lemma jaw_term_small:
  "length (filter (\<lambda>m. m = tag) maskv) \<le> 2 \<Longrightarrow>
   jaw_term svd w (mask_eq maskv tag) prediction target = Inr 0"
  by (simp add: jaw_term_def count_true_mask_eq)

section \<open>Properties of the loss compositions\<close>

text \<open>
  Claim C5. In each of the three loss compositions, the L1 term of a region whose tag no
  sample of the batch carries is exactly zero, and in the full-head composition the
  Procrustes term of the JAW region is exactly zero when at most two samples carry the JAW
  tag. No exception is raised there, whatever the predictions and targets are: the terms
  are returned values. With all of its regions empty like this, a composition returns its
  regularizer term alone.
\<close>

theorem empty_region_terms_are_zero:
  "(FLAME_MASK G \<notin> set maskv \<longrightarrow>
      region_l1_term (w_flame W) (mask_eq maskv (FLAME_MASK G)) prediction target = Inr 0) \<and>
   (BOUNDARY_MASK G \<notin> set maskv \<longrightarrow>
      region_l1_term (w_boundary W) (mask_eq maskv (BOUNDARY_MASK G)) prediction target = Inr 0) \<and>
   (SURFACE_MASK G \<notin> set maskv \<longrightarrow>
      region_l1_term (w_surface W) (mask_eq maskv (SURFACE_MASK G)) prediction target = Inr 0) \<and>
   (SKULL_MASK G \<notin> set maskv \<longrightarrow>
      region_l1_term (w_skull W) (mask_eq maskv (SKULL_MASK G)) prediction target = Inr 0) \<and>
   (FIXED_MASK G \<notin> set maskv \<longrightarrow>
      region_l1_term (w_fixed W) (mask_eq maskv (FIXED_MASK G)) prediction target = Inr 0) \<and>
   (length (filter (\<lambda>m. m = JAW_MASK G) maskv) \<le> 2 \<longrightarrow>
      jaw_term svd (w_jaw W) (mask_eq maskv (JAW_MASK G)) prediction target = Inr 0) \<and>
   (FLAME_MASK G \<notin> set maskv \<and> BOUNDARY_MASK G \<notin> set maskv \<longrightarrow>
      surface_compute_loss svd W G prediction target maskv jacobian =
        (case deformation_loss svd jacobian of
           Inl e \<Rightarrow> Inl e | Inr d \<Rightarrow> Inr (d * w_deformation W))) \<and>
   (SURFACE_MASK G \<notin> set maskv \<and> SKULL_MASK G \<notin> set maskv \<and>
    length (filter (\<lambda>m. m = JAW_MASK G) maskv) \<le> 2 \<longrightarrow>
      inr_compute_loss svd W G prediction target maskv jacobian =
        (case deformation_loss svd jacobian of
           Inl e \<Rightarrow> Inl e | Inr d \<Rightarrow> Inr (d * w_deformation W))) \<and>
   (FIXED_MASK G \<notin> set maskv \<longrightarrow>
      simulator_compute_loss svd W G prediction target maskv jacobian actuations =
        (case energy_loss svd jacobian actuations of
           Inl e \<Rightarrow> Inl e | Inr en \<Rightarrow> Inr (en * w_energy W)))"
  by (simp add: region_l1_term_empty jaw_term_small surface_compute_loss_def
      inr_compute_loss_def simulator_compute_loss_def split: sum.splits)

theorem empty_region_terms_are_zero_witness:
  "region_l1_term (w_flame default_weights) (mask_eq [5] (FLAME_MASK example_tags))
     [Vec3 0 0 0] [Vec3 1 1 1] = Inr 0 \<and>
   jaw_term svd_diag (w_jaw default_weights) (mask_eq [1, 5, 1] (JAW_MASK example_tags))
     [Vec3 0 0 0, Vec3 1 0 0, Vec3 0 1 0] [Vec3 1 1 1, Vec3 1 0 0, Vec3 0 1 0] = Inr 0 \<and>
   inr_compute_loss svd_diag default_weights example_tags
     [Vec3 0 0 0, Vec3 1 0 0, Vec3 0 1 0] [Vec3 1 1 1, Vec3 1 0 0, Vec3 0 1 0] [1, 5, 1]
     [eye3, eye3, eye3] = Inr 0 \<and>
   simulator_compute_loss svd_diag default_weights example_tags
     [Vec3 0 0 0] [Vec3 1 1 1] [5] [eye3] [eye3] = Inr 0"
proof -
  have d: "deformation_loss svd_diag [eye3, eye3, eye3] = Inr 0"
    by (simp add: deformation_loss_per_sample closest_rotation_def svd_diag_def Z_fix_def
        eye3_def mean_def)
  have e: "energy_loss svd_diag [eye3] [eye3] = Inr 0"
    by (simp add: energy_loss_per_sample closest_rotation_def svd_diag_def Z_fix_def
        eye3_def mean_def)
  show ?thesis
    using empty_region_terms_are_zero [of example_tags "[5]" default_weights
        "[Vec3 0 0 0]" "[Vec3 1 1 1]" svd_diag "[eye3]" "[eye3]"]
      empty_region_terms_are_zero [of example_tags "[1, 5, 1]" default_weights
        "[Vec3 0 0 0, Vec3 1 0 0, Vec3 0 1 0]" "[Vec3 1 1 1, Vec3 1 0 0, Vec3 0 1 0]" svd_diag
        "[eye3, eye3, eye3]" "[eye3]"]
    by (simp add: d e example_tags_def)
qed







section \<open>Properties of the Fourier encoding\<close>

lemma concat_uniform_length:
  "\<forall>c \<in> set cs. length c = m \<Longrightarrow> length (concat cs) = length cs * m"
  by (induction cs) simp_all

lemma concat_uniform_nth:
  "\<forall>c \<in> set cs. length c = m \<Longrightarrow> d < length cs \<Longrightarrow> j < m \<Longrightarrow>
   concat cs ! (d * m + j) = cs ! d ! j"
proof (induction cs arbitrary: d)
  case Nil
  then show ?case by simp
next
  case (Cons c cs)
  have lc: "length c = m" using Cons.prems(1) by simp
  show ?case
  proof (cases d)
    case 0
    then show ?thesis using Cons.prems(3) lc by (simp add: nth_append)
  next
    case (Suc d')
    have "concat cs ! (d' * m + j) = cs ! d' ! j"
      using Cons.IH [of d'] Cons.prems Suc by simp
    moreover have "Suc d' * m + j = m + (d' * m + j)" by simp
    ultimately show ?thesis using Suc lc by (simp add: nth_append del: mult_Suc)
  qed
qed

lemma fourier_encode_samples:
  "x \<noteq> [] \<Longrightarrow> fourier_encode F x = Inr (map (\<lambda>row. concat (map (encode_scalar F) row)) x)"
  by (simp add: fourier_encode_def encode_scalar_def [abs_def] Let_def comp_def)

lemma encode_scalar_length: "length (encode_scalar F v) = 2 * F"
  by (simp add: encode_scalar_def frequencies_def)

lemma encode_scalar_sin: "k < F \<Longrightarrow> encode_scalar F v ! k = sin (2 ^ k * pi * v)"
  by (simp add: encode_scalar_def frequencies_def nth_append mult.commute)

lemma encode_scalar_cos: "k < F \<Longrightarrow> encode_scalar F v ! (F + k) = cos (2 ^ k * pi * v)"
  by (simp add: encode_scalar_def frequencies_def nth_append mult.commute)

text \<open>
  Claim C8. On a batch of at least one sample the encoding returns one feature vector per
  sample. The vector of a sample of \<open>input_size\<close> scalars has the width
  \<open>input_size * 2 * fourier_features\<close>, which is the width the first layer takes when the
  encoding is enabled. The scalar at position \<open>d\<close> fills the positions from
  \<open>d * 2 * fourier_features\<close> on: first \<open>sin (2\<^sup>k * pi * x)\<close> for \<open>k\<close> from \<open>0\<close> to
  \<open>fourier_features - 1\<close>, then the cosines in the same order.
\<close>

theorem fourier_encode_layout:
  assumes "x \<noteq> []"
  shows "\<exists>xff. fourier_encode F x = Inr xff \<and> length xff = length x \<and>
           (\<forall>n < length x.
              length (xff ! n) = length (x ! n) * 2 * F \<and>
              (length (x ! n) = input_size \<longrightarrow>
                 length (xff ! n) = first_layer_in_features True input_size F) \<and>
              (\<forall>d < length (x ! n). \<forall>k < F.
                 xff ! n ! (d * (2 * F) + k) = sin (2 ^ k * pi * (x ! n ! d)) \<and>
                 xff ! n ! (d * (2 * F) + F + k) = cos (2 ^ k * pi * (x ! n ! d))))"
proof -
  let ?enc = "\<lambda>row. concat (map (encode_scalar F) row)"
  have len: "length (?enc row) = length row * 2 * F" for row
    using concat_uniform_length [of "map (encode_scalar F) row" "2 * F"]
    by (simp add: encode_scalar_length)
  have at: "?enc row ! (d * (2 * F) + j) = encode_scalar F (row ! d) ! j"
    if "d < length row" "j < 2 * F" for row d j
    using concat_uniform_nth [of "map (encode_scalar F) row" "2 * F" d j] that
    by (simp add: encode_scalar_length)
  have s: "?enc row ! (d * (2 * F) + k) = sin (2 ^ k * pi * (row ! d))"
    if "d < length row" "k < F" for row d k
    using at [of d row k] that by (simp add: encode_scalar_sin)
  have c: "?enc row ! (d * (2 * F) + F + k) = cos (2 ^ k * pi * (row ! d))"
    if "d < length row" "k < F" for row d k
    using at [of d row "F + k"] that by (simp add: encode_scalar_cos add.assoc)
  show ?thesis
    apply (rule exI [of _ "map ?enc x"])
    using assms by (simp add: fourier_encode_samples len s c first_layer_in_features_def)
qed

theorem fourier_encode_layout_witness:
  "[[0, 1 / 2 :: real]] \<noteq> [] \<and>
   fourier_encode 1 [[0, 1 / 2]] = Inr [[0, 1, 1, 0]] \<and>
   first_layer_in_features True 2 1 = 4"
proof -
  have ne: "[[0, 1 / 2 :: real]] \<noteq> []" by simp
  obtain xff where x: "fourier_encode 1 [[0, 1 / 2]] = Inr xff" "length xff = 1"
    and n: "\<forall>n < length [[0, 1 / 2 :: real]].
              length (xff ! n) = length ([[0, 1 / 2 :: real]] ! n) * 2 * 1 \<and>
              (length ([[0, 1 / 2 :: real]] ! n) = 2 \<longrightarrow>
                 length (xff ! n) = first_layer_in_features True 2 1) \<and>
              (\<forall>d < length ([[0, 1 / 2 :: real]] ! n). \<forall>k < 1.
                 xff ! n ! (d * (2 * 1) + k) = sin (2 ^ k * pi * ([[0, 1 / 2]] ! n ! d)) \<and>
                 xff ! n ! (d * (2 * 1) + 1 + k) = cos (2 ^ k * pi * ([[0, 1 / 2]] ! n ! d)))"
    using fourier_encode_layout [OF ne, of 1 2] by auto
  from n have l: "length (xff ! 0) = 4" and f: "first_layer_in_features True 2 1 = 4"
    by auto
  from n have e: "xff ! 0 ! 0 = 0" "xff ! 0 ! 1 = 1" "xff ! 0 ! 2 = 1" "xff ! 0 ! 3 = 0"
    by (auto simp: less_Suc_eq all_conj_distrib)
  have "xff ! 0 = [0, 1, 1, 0]"
    using l e by (intro nth_equalityI) (auto simp: less_Suc_eq numeral_eq_Suc)
  then have "xff = [[0, 1, 1, 0]]"
    using x(2) by (cases xff) auto
  then show ?thesis using x(1) f by simp
qed

section \<open>Algebra of 3-by-3 matrices\<close>

lemma mat3_cases:
  "(\<And>a b c d e f g h i. M = Mat3 (Vec3 a b c) (Vec3 d e f) (Vec3 g h i) \<Longrightarrow> P) \<Longrightarrow> P"
  by (metis mat3.exhaust vec3.exhaust)

lemma transpose3_transpose3: "transpose3 (transpose3 A) = A"
  by (cases A rule: mat3_cases) simp

lemma mm_assoc: "mm (mm A B) C = mm A (mm B C)"
  by (cases A rule: mat3_cases; cases B rule: mat3_cases; cases C rule: mat3_cases)
     (simp add: algebra_simps)

lemma mm_eye_left: "mm eye3 A = A"
  by (cases A rule: mat3_cases) (simp add: eye3_def)

lemma mm_eye_right: "mm A eye3 = A"
  by (cases A rule: mat3_cases) (simp add: eye3_def)

lemma transpose3_mm: "transpose3 (mm A B) = mm (transpose3 B) (transpose3 A)"
  by (cases A rule: mat3_cases; cases B rule: mat3_cases) (simp add: algebra_simps)

lemma det3_eye: "det3 eye3 = 1"
  by (simp add: eye3_def)

lemma det3_transpose: "det3 (transpose3 A) = det3 A"
  by (cases A rule: mat3_cases) (simp add: algebra_simps)

lemma det3_mm: "det3 (mm A B) = det3 A * det3 B"
  by (cases A rule: mat3_cases; cases B rule: mat3_cases) (simp add: algebra_simps)

lemma trace3_mm_commute: "trace3 (mm A B) = trace3 (mm B A)"
  by (cases A rule: mat3_cases; cases B rule: mat3_cases) (simp add: algebra_simps)

lemma mv_mm: "mv (mm A B) v = mv A (mv B v)"
  by (cases A rule: mat3_cases; cases B rule: mat3_cases; cases v) (simp add: algebra_simps)

lemma dot_mv: "dot (mv A x) y = dot x (mv (transpose3 A) y)"
  by (cases A rule: mat3_cases; cases x; cases y) (simp add: algebra_simps)

lemma dot_commute: "dot x y = dot y x"
  by (cases x; cases y) (simp add: algebra_simps)

lemma mv_eye: "mv eye3 v = v"
  by (cases v) (simp add: eye3_def)

lemma orthogonal3_det_sq:
  assumes "orthogonal3 Q"
  shows "det3 Q * det3 Q = 1"
proof -
  have "det3 (mm (transpose3 Q) Q) = 1"
    using assms by (simp add: orthogonal3_def det3_eye)
  then show ?thesis by (simp add: det3_mm det3_transpose)
qed

lemma orthogonal3_det: "orthogonal3 Q \<Longrightarrow> det3 Q = 1 \<or> det3 Q = - 1"
  using orthogonal3_det_sq [of Q] by (simp add: power2_eq_1_iff flip: power2_eq_square)

lemma det3_Z_fix: "det3 (Z_fix U V) = sgn (det3 U * det3 V)"
  by (simp add: Z_fix_def det3_mm det3_transpose)

lemma sign_fixed_det:
  assumes "orthogonal3 U" "orthogonal3 V"
  shows "det3 V * sgn (det3 U * det3 V) * det3 U = 1"
  using orthogonal3_det [OF assms(1)] orthogonal3_det [OF assms(2)] by auto

lemma procrustes_R_det:
  assumes "svd K = (U, s, V)" "orthogonal3 U" "orthogonal3 V"
  shows "det3 (procrustes_R svd K) = 1"
  using sign_fixed_det [OF assms(2,3)]
  by (simp add: procrustes_R_def assms(1) det3_mm det3_transpose det3_Z_fix)

lemma closest_rotation_det:
  assumes "svd M = (U, s, V)" "orthogonal3 U" "orthogonal3 V"
  shows "det3 (closest_rotation svd M) = 1"
  using sign_fixed_det [OF assms(2,3)]
  by (simp add: closest_rotation_def assms(1) det3_mm det3_transpose det3_Z_fix mult.commute
      mult.left_commute)

lemma batch_rotations_det:
  assumes "\<forall>M \<in> set Ms. orthogonal_factors svd M"
  shows "\<forall>R \<in> set (batch_rotations (map fst (map svd Ms)) (map (\<lambda>usv. snd (snd usv)) (map svd Ms))).
           det3 R = 1"
proof -
  have "det3 (closest_rotation svd M) = 1" if "M \<in> set Ms" for M
  proof -
    obtain U s V where usv: "svd M = (U, s, V)" by (metis prod_cases3)
    with assms that have "orthogonal3 U" "orthogonal3 V" by (auto simp: orthogonal_factors_def)
    with usv show ?thesis by (rule closest_rotation_det)
  qed
  then show ?thesis unfolding batch_rotations_map by simp
qed

text \<open>
  Claim C4. Whenever the two factors \<open>U\<close> and \<open>V\<close> that the decomposition returns are
  orthogonal, the rotation built from them has determinant \<open>1\<close>: in \<^verbatim>\<open>procrustes_loss\<close>
  for the matrix \<open>K\<close> of every pair of point sets, and in \<^verbatim>\<open>deformation_loss\<close> and
  \<^verbatim>\<open>energy_loss\<close> for every sample of the decomposed batch (the Jacobians, and the
  Jacobians times the actuations).
\<close>

theorem rotation_has_determinant_one:
  "(orthogonal_factors svd (mm_T (centered S1) (centered S2)) \<longrightarrow>
      det3 (procrustes_R svd (mm_T (centered S1) (centered S2))) = 1) \<and>
   ((\<forall>M \<in> set jacobian. orthogonal_factors svd M) \<longrightarrow>
      (\<forall>R \<in> set (batch_rotations (map fst (map svd jacobian))
                   (map (\<lambda>usv. snd (snd usv)) (map svd jacobian))).
         det3 R = 1)) \<and>
   ((\<forall>M \<in> set (map (\<lambda>(j, a). mm j a) (zip jacobian actuations)). orthogonal_factors svd M) \<longrightarrow>
      (\<forall>R \<in> set (batch_rotations
                   (map fst (map svd (map (\<lambda>(j, a). mm j a) (zip jacobian actuations))))
                   (map (\<lambda>usv. snd (snd usv))
                      (map svd (map (\<lambda>(j, a). mm j a) (zip jacobian actuations))))).
         det3 R = 1))"
proof (intro conjI impI)
  assume a: "orthogonal_factors svd (mm_T (centered S1) (centered S2))"
  obtain U s V where usv: "svd (mm_T (centered S1) (centered S2)) = (U, s, V)"
    by (metis prod_cases3)
  with a have "orthogonal3 U" "orthogonal3 V" by (auto simp: orthogonal_factors_def)
  with usv show "det3 (procrustes_R svd (mm_T (centered S1) (centered S2))) = 1"
    by (rule procrustes_R_det)
next
  assume "\<forall>M \<in> set jacobian. orthogonal_factors svd M"
  then show "\<forall>R \<in> set (batch_rotations (map fst (map svd jacobian))
                   (map (\<lambda>usv. snd (snd usv)) (map svd jacobian))). det3 R = 1"
    by (rule batch_rotations_det)
next
  assume "\<forall>M \<in> set (map (\<lambda>(j, a). mm j a) (zip jacobian actuations)). orthogonal_factors svd M"
  then show "\<forall>R \<in> set (batch_rotations
                   (map fst (map svd (map (\<lambda>(j, a). mm j a) (zip jacobian actuations))))
                   (map (\<lambda>usv. snd (snd usv))
                      (map svd (map (\<lambda>(j, a). mm j a) (zip jacobian actuations))))).
         det3 R = 1"
    by (rule batch_rotations_det)
qed

lemma svd_diag_at:
  "b \<le> a \<Longrightarrow> c \<le> b \<Longrightarrow> 0 \<le> c \<Longrightarrow>
   svd_at svd_diag (Mat3 (Vec3 a 0 0) (Vec3 0 b 0) (Vec3 0 0 c))"
  by (simp add: svd_at_def svd_diag_def orthogonal3_def eye3_def diag3_def)

theorem rotation_has_determinant_one_witness:
  "orthogonal_factors svd_diag (mm_T (centered example_S1) (centered example_S2)) \<and>
   det3 (procrustes_R svd_diag (mm_T (centered example_S1) (centered example_S2))) = 1 \<and>
   orthogonal_factors svd_diag example_stretch \<and>
   det3 (batch_rotations (map fst (map svd_diag [example_stretch]))
           (map (\<lambda>usv. snd (snd usv)) (map svd_diag [example_stretch])) ! 0) = 1 \<and>
   orthogonal_factors svd_diag (mm example_stretch example_scale2) \<and>
   det3 (batch_rotations
           (map fst (map svd_diag (map (\<lambda>(j, a). mm j a) (zip [example_stretch] [example_scale2]))))
           (map (\<lambda>usv. snd (snd usv))
              (map svd_diag (map (\<lambda>(j, a). mm j a) (zip [example_stretch] [example_scale2])))) ! 0)
     = 1"
proof -
  have o: "orthogonal_factors svd_diag M" for M
    by (simp add: orthogonal_factors_def svd_diag_def orthogonal3_def eye3_def)
  note k = o [of "mm_T (centered example_S1) (centered example_S2)"]
  note j = o [of example_stretch]
  note ja = o [of "mm example_stretch example_scale2"]
  have l: "batch_rotations (map fst (map svd_diag Ms)) (map (\<lambda>usv. snd (snd usv)) (map svd_diag Ms)) ! 0
           \<in> set (batch_rotations (map fst (map svd_diag Ms))
                    (map (\<lambda>usv. snd (snd usv)) (map svd_diag Ms)))"
    if "Ms \<noteq> []" for Ms
    unfolding batch_rotations_map using that by simp
  show ?thesis
    using rotation_has_determinant_one [of svd_diag example_S1 example_S2 "[example_stretch]"
        "[example_scale2]"] k j ja l [of "[example_stretch]"]
      l [of "map (\<lambda>(j, a). mm j a) (zip [example_stretch] [example_scale2])"]
    by simp
qed

section \<open>The decomposition of a scaled orthogonal matrix\<close>

lemma transpose3_diag3: "transpose3 (diag3 s) = diag3 s"
  by (simp add: diag3_def)

lemma orthogonal3_cancel_left: "orthogonal3 Q \<Longrightarrow> mm (transpose3 Q) (mm Q X) = X"
  by (simp add: orthogonal3_def mm_eye_left flip: mm_assoc)

lemma orthogonal3_cancel_right: "orthogonal3 Q \<Longrightarrow> mm (mm X (transpose3 Q)) Q = X"
  by (simp add: orthogonal3_def mm_eye_right mm_assoc)

lemma scalar_matrix_commute:
  "mm A (diag3 (Vec3 k k k)) = mm (diag3 (Vec3 k k k)) A"
  by (cases A rule: mat3_cases) (simp add: diag3_def algebra_simps)

lemma scalar_matrix_eye: "diag3 (Vec3 1 1 1) = eye3"
  by (simp add: diag3_def eye3_def)

lemma singular_values_of_scaled_orthogonal:
  assumes usv: "svd M = (U, s, V)" and at: "svd_at svd M"
    and mtm: "mm (transpose3 M) M = diag3 (Vec3 (c * c) (c * c) (c * c))" and c: "0 < c"
  shows "s = Vec3 c c c"
proof -
  from at usv have oU: "orthogonal3 U" and oV: "orthogonal3 V"
    and M: "M = mm U (mm (diag3 s) (transpose3 V))"
    and nn: "0 \<le> vx s" "0 \<le> vy s" "0 \<le> vz s"
    by (auto simp: svd_at_def)
  have "mm (transpose3 M) M =
        mm V (mm (diag3 s) (mm (transpose3 U) (mm U (mm (diag3 s) (transpose3 V)))))"
    by (subst (1 2) M) (simp add: transpose3_mm transpose3_transpose3 transpose3_diag3 mm_assoc)
  also have "\<dots> = mm V (mm (mm (diag3 s) (diag3 s)) (transpose3 V))"
    by (simp add: orthogonal3_cancel_left [OF oU] mm_assoc)
  finally have "mm V (mm (mm (diag3 s) (diag3 s)) (transpose3 V)) =
                diag3 (Vec3 (c * c) (c * c) (c * c))"
    using mtm by simp
  then have "mm (transpose3 V) (mm (mm V (mm (mm (diag3 s) (diag3 s)) (transpose3 V))) V) =
             mm (transpose3 V) (mm (diag3 (Vec3 (c * c) (c * c) (c * c))) V)"
    by simp
  then have "mm (diag3 s) (diag3 s) = mm (transpose3 V) (mm (diag3 (Vec3 (c * c) (c * c) (c * c))) V)"
    using orthogonal3_cancel_left [OF oV] orthogonal3_cancel_right [OF oV]
    by (simp add: mm_assoc)
  also have "\<dots> = diag3 (Vec3 (c * c) (c * c) (c * c))"
    using orthogonal3_cancel_left [OF oV]
    by (simp add: scalar_matrix_commute [symmetric])
  finally have dd: "mm (diag3 s) (diag3 s) = diag3 (Vec3 (c * c) (c * c) (c * c))" .
  then have "vx s * vx s = c * c" "vy s * vy s = c * c" "vz s * vz s = c * c"
    by (simp_all add: diag3_def)
  with nn c have "vx s = c" "vy s = c" "vz s = c"
    by (simp_all flip: power2_eq_square)
  then show ?thesis by (cases s) simp
qed

lemma closest_rotation_of_rotation:
  assumes at: "svd_at svd M" and rot: "rotation3 M"
  shows "closest_rotation svd M = M"
proof -
  obtain U s V where usv: "svd M = (U, s, V)" by (metis prod_cases3)
  from rot have "mm (transpose3 M) M = diag3 (Vec3 (1 * 1) (1 * 1) (1 * 1))"
    by (simp add: rotation3_def orthogonal3_def scalar_matrix_eye)
  then have "s = Vec3 1 1 1"
    by (rule singular_values_of_scaled_orthogonal [OF usv at]) simp
  moreover from at usv have "M = mm U (mm (diag3 s) (transpose3 V))"
    by (auto simp: svd_at_def)
  ultimately have M: "M = mm U (transpose3 V)"
    by (simp add: scalar_matrix_eye mm_eye_left)
  then have "det3 (mm U (transpose3 V)) = 1"
    using rot by (simp add: rotation3_def)
  then have "Z_fix U V = eye3"
    by (simp add: Z_fix_def eye3_def)
  then have "closest_rotation svd M = mm U (transpose3 V)"
    by (simp add: closest_rotation_def usv mm_eye_left)
  with M show ?thesis by simp
qed

lemma closest_rotation_of_scale:
  assumes at: "svd_at svd (diag3 (Vec3 c c c))" and c: "0 < c"
  shows "closest_rotation svd (diag3 (Vec3 c c c)) = eye3"
proof -
  let ?M = "diag3 (Vec3 c c c)"
  obtain U s V where usv: "svd ?M = (U, s, V)" by (metis prod_cases3)
  have "mm (transpose3 ?M) ?M = diag3 (Vec3 (c * c) (c * c) (c * c))"
    by (simp add: diag3_def)
  then have "s = Vec3 c c c"
    using singular_values_of_scaled_orthogonal [OF usv at _ c] by simp
  moreover from at usv have "?M = mm U (mm (diag3 s) (transpose3 V))"
    by (auto simp: svd_at_def)
  ultimately have "?M = mm ?M (mm U (transpose3 V))"
    by (simp add: scalar_matrix_commute flip: mm_assoc)
  then have UV: "mm U (transpose3 V) = eye3"
    using c by (cases "mm U (transpose3 V)" rule: mat3_cases) (simp add: diag3_def eye3_def)
  then have "Z_fix U V = eye3"
    by (simp add: Z_fix_def eye3_def)
  then show ?thesis
    using UV by (simp add: closest_rotation_def usv mm_eye_left)
qed

lemma mean_constant:
  assumes "xs \<noteq> []" "\<forall>x \<in> set xs. f x = k"
  shows "mean (map f xs) = Inr k"
proof -
  have "sum_list (map f xs) = real (length xs) * k"
    using assms(2) by (induction xs) (simp_all add: algebra_simps)
  then show ?thesis using assms(1) by (simp add: mean_def)
qed

lemma matrix_norm_self: "matrix_norm (msub M M) = 0"
  by (cases M rule: mat3_cases) simp

lemma matrix_norm_scale_eye:
  "matrix_norm (msub (diag3 (Vec3 c c c)) eye3) = \<bar>c - 1\<bar> * sqrt 3"
proof -
  have "matrix_norm (msub (diag3 (Vec3 c c c)) eye3) = sqrt (3 * (c - 1)\<^sup>2)"
    by (simp add: diag3_def eye3_def power2_eq_square algebra_simps)
  also have "\<dots> = \<bar>c - 1\<bar> * sqrt 3"
    by (simp add: real_sqrt_mult)
  finally show ?thesis .
qed

text \<open>
  Claim C6. For a batch of at least one matrix, each decomposed by \<open>svd\<close> as PyTorch
  documents, \<^verbatim>\<open>deformation_loss\<close> returns \<open>0\<close> when every matrix of the batch is a proper
  rotation, and \<open>|c - 1| * sqrt 3\<close> when every matrix is \<open>c\<close> times the identity with
  \<open>c > 0\<close>. (In exact arithmetic; the mean of a batch of no matrix is NaN.)
\<close>

theorem closest_rotation_residuals:
  assumes "jacobian \<noteq> []" and "\<forall>M \<in> set jacobian. svd_at svd M"
  shows "((\<forall>M \<in> set jacobian. rotation3 M) \<longrightarrow> deformation_loss svd jacobian = Inr 0) \<and>
         (0 < c \<and> (\<forall>M \<in> set jacobian. M = diag3 (Vec3 c c c)) \<longrightarrow>
            deformation_loss svd jacobian = Inr (\<bar>c - 1\<bar> * sqrt 3))"
proof (intro conjI impI)
  assume "\<forall>M \<in> set jacobian. rotation3 M"
  with assms(2) have "\<forall>M \<in> set jacobian. matrix_norm (msub M (closest_rotation svd M)) = 0"
    by (simp add: closest_rotation_of_rotation matrix_norm_self)
  with assms(1) show "deformation_loss svd jacobian = Inr 0"
    unfolding deformation_loss_per_sample by (rule mean_constant)
next
  assume a: "0 < c \<and> (\<forall>M \<in> set jacobian. M = diag3 (Vec3 c c c))"
  have "\<forall>M \<in> set jacobian. matrix_norm (msub M (closest_rotation svd M)) = \<bar>c - 1\<bar> * sqrt 3"
  proof
    fix M assume m: "M \<in> set jacobian"
    with a have M: "M = diag3 (Vec3 c c c)" by simp
    with assms(2) m have "svd_at svd (diag3 (Vec3 c c c))" by auto
    then have "closest_rotation svd (diag3 (Vec3 c c c)) = eye3"
      using a by (intro closest_rotation_of_scale) simp_all
    then show "matrix_norm (msub M (closest_rotation svd M)) = \<bar>c - 1\<bar> * sqrt 3"
      by (simp add: M matrix_norm_scale_eye)
  qed
  with assms(1) show "deformation_loss svd jacobian = Inr (\<bar>c - 1\<bar> * sqrt 3)"
    unfolding deformation_loss_per_sample by (rule mean_constant)
qed

theorem closest_rotation_residuals_witness:
  "deformation_loss (\<lambda>M. (M, Vec3 1 1 1, eye3))
     [Mat3 (Vec3 0 (- 1) 0) (Vec3 1 0 0) (Vec3 0 0 1), eye3] = Inr 0 \<and>
   deformation_loss svd_diag [example_scale2, example_scale2] = Inr (sqrt 3)"
proof -
  let ?svd = "\<lambda>M. (M, Vec3 1 1 1, eye3)"
  let ?Q = "Mat3 (Vec3 0 (- 1) 0) (Vec3 1 0 0) (Vec3 0 0 1)"
  have r: "\<forall>M \<in> set [?Q, eye3]. rotation3 M"
    by (simp add: rotation3_def orthogonal3_def eye3_def)
  have a: "\<forall>M \<in> set [?Q, eye3]. svd_at ?svd M"
    by (simp add: svd_at_def orthogonal3_def eye3_def diag3_def)
  have s: "example_scale2 = diag3 (Vec3 2 2 2)"
    by (simp add: example_scale2_def diag3_def)
  have b: "\<forall>M \<in> set [example_scale2, example_scale2]. svd_at svd_diag M"
    by (simp add: example_scale2_def svd_diag_at)
  show ?thesis
    using closest_rotation_residuals [of "[?Q, eye3]" ?svd 1, OF _ a] r
      closest_rotation_residuals [of "[example_scale2, example_scale2]" svd_diag 2, OF _ b] s
    by simp
qed

section \<open>The Procrustes loss on the points\<close>

lemma vsub_components [simp]:
  "vx (vsub p q) = vx p - vx q" "vy (vsub p q) = vy p - vy q" "vz (vsub p q) = vz p - vz q"
  by (cases p; cases q; simp)+

lemma vadd_components [simp]:
  "vx (vadd p q) = vx p + vx q" "vy (vadd p q) = vy p + vy q" "vz (vadd p q) = vz p + vz q"
  by (cases p; cases q; simp)+

lemma smul_components [simp]:
  "vx (smul k p) = k * vx p" "vy (smul k p) = k * vy p" "vz (smul k p) = k * vz p"
  by (cases p; simp)+

lemma mv_components [simp]:
  "vx (mv R p) = dot (row1 R) p" "vy (mv R p) = dot (row2 R) p" "vz (mv R p) = dot (row3 R) p"
  by (cases R; simp)+

lemma dot_components: "dot p q = vx p * vx q + vy p * vy q + vz p * vz q"
  by (cases p; cases q) simp

lemma vec3_eqI: "vx p = vx q \<Longrightarrow> vy p = vy q \<Longrightarrow> vz p = vz q \<Longrightarrow> p = q"
  by (cases p; cases q) simp

lemma vsum_components:
  "vsum ps = Vec3 (sum_list (map vx ps)) (sum_list (map vy ps)) (sum_list (map vz ps))"
  by (induction ps) (simp_all add: vsum_def vec3_eqI)

lemma mean_axis1_centroid: "mean_axis1 (transposeT S) = centroid S"
  by (simp add: transposeT_def centroid_def vsum_components mean_row_def)

lemma sub_col_transposeT: "sub_col (transposeT S) m = transposeT (map (\<lambda>p. vsub p m) S)"
  by (cases m) (simp add: transposeT_def comp_def)

lemma add_col_transposeT: "add_col (transposeT S) t = transposeT (map (\<lambda>p. vadd p t) S)"
  by (cases t) (simp add: transposeT_def comp_def)

lemma scale_rows_transposeT: "scale_rows k (transposeT S) = transposeT (map (smul k) S)"
  by (simp add: transposeT_def comp_def)

lemma combine_rows_transposeT: "combine_rows r (transposeT S) = map (dot r) S"
  by (cases r, induction S) (simp_all add: transposeT_def dot_components)

lemma mm_rows_transposeT: "mm_rows R (transposeT S) = transposeT (map (mv R) S)"
  by (cases R) (simp add: combine_rows_transposeT, simp add: transposeT_def comp_def)

lemma untranspose_transposeT: "untranspose (transposeT S) = S"
  by (induction S) (simp_all add: transposeT_def)

lemma centered_points: "centered S = transposeT (map (\<lambda>p. vsub p (centroid S)) S)"
  by (simp add: centered_def mean_axis1_centroid sub_col_transposeT)

lemma sum_squares_transposeT: "sum_squares (transposeT C) = sum_list (map (\<lambda>x. dot x x) C)"
  by (induction C) (simp_all add: transposeT_def dot_components power2_eq_square)

lemma cross_covariance_Nil [simp]:
  "cross_covariance [] ys = Mat3 (Vec3 0 0 0) (Vec3 0 0 0) (Vec3 0 0 0)"
  "cross_covariance xs [] = Mat3 (Vec3 0 0 0) (Vec3 0 0 0) (Vec3 0 0 0)"
  by (simp_all add: cross_covariance_def)

lemma cross_covariance_Cons [simp]:
  "cross_covariance (x # xs) (y # ys) = madd (outer x y) (cross_covariance xs ys)"
  by (simp add: cross_covariance_def)

lemma inner_rows_simps [simp]:
  "inner_rows [] ys = 0" "inner_rows xs [] = 0"
  "inner_rows (x # xs) (y # ys) = x * y + inner_rows xs ys"
  by (simp_all add: inner_rows_def)

lemma mm_T_transposeT: "mm_T (transposeT C1) (transposeT C2) = cross_covariance C1 C2"
proof (induction C1 arbitrary: C2)
  case Nil
  then show ?case by (simp add: transposeT_def)
next
  case (Cons x C1)
  show ?case
  proof (cases C2)
    case Nil
    then show ?thesis by (simp add: transposeT_def)
  next
    case (Cons y C2')
    have "mm_T (transposeT (x # C1)) (transposeT (y # C2')) =
          madd (outer x y) (mm_T (transposeT C1) (transposeT C2'))"
      by (cases x; cases y) (simp add: transposeT_def)
    then show ?thesis using Cons Cons.IH [of C2'] by simp
  qed
qed

lemma procrustes_loss_pointwise:
  assumes "length S2 = length S1"
  shows "procrustes_loss svd S1 S2 = spec_procrustes svd S1 S2"
proof (cases "S1 = []")
  case True
  then show ?thesis using assms by (simp add: procrustes_loss_def spec_procrustes_def)
next
  case False
  have z: "map (\<lambda>(p, q). norm3 (vsub p q)) (zip (map f S1) S2) =
           map (\<lambda>(p, q). norm3 (vsub (f p) q)) (zip S1 S2)" for f
    by (simp add: zip_map1 split_def)
  from False assms have "S2 \<noteq> []" by auto
  then show ?thesis
    using False assms
    unfolding procrustes_loss_def spec_procrustes_def Let_def mean_axis1_centroid
      centered_points sum_squares_transposeT mm_T_transposeT mm_rows_transposeT
      scale_rows_transposeT add_col_transposeT untranspose_transposeT procrustes_R_def
    by (simp add: mean_def comp_def z split_def zip_map1)
qed

section \<open>The trace that the Procrustes rotation attains\<close>

lemma orthogonal3_transpose: "orthogonal3 Q \<Longrightarrow> orthogonal3 (transpose3 Q)"
  by (simp add: orthogonal3_def transpose3_transpose3)

lemma orthogonal3_mm:
  assumes "orthogonal3 A" "orthogonal3 B"
  shows "orthogonal3 (mm A B)"
proof -
  have "mm (transpose3 (mm A B)) (mm A B) =
        mm (transpose3 B) (mm (transpose3 A) (mm A B))"
    by (simp add: transpose3_mm mm_assoc)
  also have "\<dots> = eye3"
    using assms by (simp add: orthogonal3_cancel_left) (simp add: orthogonal3_def)
  finally have l: "mm (transpose3 (mm A B)) (mm A B) = eye3" .
  have "mm (mm A B) (transpose3 (mm A B)) =
        mm A (mm (mm B (transpose3 B)) (transpose3 A))"
    by (simp add: transpose3_mm mm_assoc)
  also have "\<dots> = eye3"
    using assms by (simp add: orthogonal3_def mm_eye_left)
  finally show ?thesis using l by (simp add: orthogonal3_def)
qed

lemma orthogonal3_dot: "orthogonal3 Q \<Longrightarrow> dot (mv Q x) (mv Q y) = dot x y"
  by (simp add: dot_mv orthogonal3_def mv_eye flip: mv_mm)

lemma orthogonal3_Z_fix:
  assumes "orthogonal3 U" "orthogonal3 V"
  shows "orthogonal3 (Z_fix U V)"
proof -
  have "det3 U * det3 V = 1 \<or> det3 U * det3 V = - 1"
    using orthogonal3_det [OF assms(1)] orthogonal3_det [OF assms(2)] by auto
  then show ?thesis
    by (auto simp: Z_fix_def orthogonal3_def eye3_def det3_mm det3_transpose)
qed

lemma trace3_diag_conjugate:
  assumes "orthogonal3 U" "orthogonal3 V"
  shows "trace3 (mm (mm V (mm Z (transpose3 U))) (mm U (mm D (transpose3 V)))) = trace3 (mm Z D)"
proof -
  have "mm (mm V (mm Z (transpose3 U))) (mm U (mm D (transpose3 V))) =
        mm V (mm (mm Z D) (transpose3 V))"
    by (simp add: mm_assoc orthogonal3_cancel_left [OF assms(1)])
  also have "trace3 \<dots> = trace3 (mm (mm (mm Z D) (transpose3 V)) V)"
    by (rule trace3_mm_commute)
  also have "\<dots> = trace3 (mm Z D)"
    by (simp add: orthogonal3_cancel_right [OF assms(2)])
  finally show ?thesis .
qed

lemma trace3_Z_fix_diag:
  "trace3 (mm (Z_fix U V) (diag3 s)) = vx s + vy s + sgn (det3 U * det3 V) * vz s"
  by (simp add: Z_fix_def diag3_def det3_mm det3_transpose)

lemma trace3_diag3: "trace3 (diag3 s) = vx s + vy s + vz s"
  by (simp add: diag3_def)

lemma unit_diagonal_orthogonal:
  assumes "orthogonal3 W" "vx (row1 W) = 1" "vy (row2 W) = 1" "vz (row3 W) = 1"
  shows "W = eye3"
proof (cases W rule: mat3_cases)
  case (1 a b c d e f g h i)
  with assms have d: "a = 1" "e = 1" "i = 1" by simp_all
  from assms(1) 1 have "a * a + b * b + c * c = 1" "d * d + e * e + f * f = 1"
    "g * g + h * h + i * i = 1"
    by (simp_all add: orthogonal3_def eye3_def)
  with d have "b * b + c * c = 0" "d * d + f * f = 0" "g * g + h * h = 0"
    by simp_all
  then have "b = 0" "c = 0" "d = 0" "f = 0" "g = 0" "h = 0"
    by simp_all
  with 1 d show ?thesis by (simp add: eye3_def)
qed

lemma square_le_1:
  fixes x :: real
  assumes "x * x + y = 1" "0 \<le> y"
  shows "x \<le> 1"
proof (rule ccontr)
  assume "\<not> x \<le> 1"
  then have "1 * 1 < x * x" by (intro mult_strict_mono) auto
  with assms show False by simp
qed

lemma orthogonal3_diagonal_le_1:
  assumes "orthogonal3 W"
  shows "vx (row1 W) \<le> 1" "vy (row2 W) \<le> 1" "vz (row3 W) \<le> 1"
proof -
  obtain a b c d e f g h i where W: "W = Mat3 (Vec3 a b c) (Vec3 d e f) (Vec3 g h i)"
    by (rule mat3_cases)
  from assms W have n: "a * a + (b * b + c * c) = 1" "e * e + (d * d + f * f) = 1"
    "i * i + (g * g + h * h) = 1"
    by (simp_all add: orthogonal3_def eye3_def)
  have "a \<le> 1" by (rule square_le_1 [OF n(1)]) simp
  moreover have "e \<le> 1" by (rule square_le_1 [OF n(2)]) simp
  moreover have "i \<le> 1" by (rule square_le_1 [OF n(3)]) simp
  ultimately show "vx (row1 W) \<le> 1" "vy (row2 W) \<le> 1" "vz (row3 W) \<le> 1"
    using W by simp_all
qed

lemma trace3_mm_diag3:
  "trace3 (mm W (diag3 s)) = vx (row1 W) * vx s + vy (row2 W) * vy s + vz (row3 W) * vz s"
  by (cases W rule: mat3_cases) (simp add: diag3_def)

lemma three_terms_zero:
  fixes a b c :: real
  assumes "a + b + c = 0" "0 \<le> a" "0 \<le> b" "0 \<le> c"
  shows "a = 0" "b = 0" "c = 0"
  using assms by linarith+

lemma procrustes_trace:
  assumes usv: "svd K = (U, s, V)" and at: "svd_at svd K"
    and Q: "rotation3 Q"
    and tQ: "trace3 (mm Q K) = m"
    and bound: "trace3 (mm (mm V (transpose3 U)) K) \<le> m"
  shows "trace3 (mm (procrustes_R svd K) K) = m"
proof -
  from at usv have oU: "orthogonal3 U" and oV: "orthogonal3 V"
    and K: "K = mm U (mm (diag3 s) (transpose3 V))"
    and ord: "vy s \<le> vx s" "vz s \<le> vy s" "0 \<le> vz s"
    by (auto simp: svd_at_def)
  from Q have oQ: "orthogonal3 Q" and dQ: "det3 Q = 1"
    by (simp_all add: rotation3_def)
  define W where "W = mm (transpose3 V) (mm Q U)"
  have oW: "orthogonal3 W"
    unfolding W_def by (intro orthogonal3_mm orthogonal3_transpose oV oQ oU)
  define w1 w2 w3 where "w1 = vx (row1 W)" and "w2 = vy (row2 W)" and "w3 = vz (row3 W)"
  have w: "w1 \<le> 1" "w2 \<le> 1" "w3 \<le> 1"
    using orthogonal3_diagonal_le_1 [OF oW] by (simp_all add: w1_def w2_def w3_def)
  have sum_le: "vx s + vy s + vz s \<le> m"
  proof -
    have "trace3 (mm (mm V (mm eye3 (transpose3 U))) (mm U (mm (diag3 s) (transpose3 V)))) =
          trace3 (mm eye3 (diag3 s))"
      by (rule trace3_diag_conjugate [OF oU oV])
    then have "trace3 (mm (mm V (transpose3 U)) K) = vx s + vy s + vz s"
      by (simp add: mm_eye_left trace3_diag3 flip: K)
    with bound show ?thesis by simp
  qed
  have m_eq: "m = w1 * vx s + w2 * vy s + w3 * vz s"
  proof -
    have "trace3 (mm Q K) = trace3 (mm (mm Q (mm U (diag3 s))) (transpose3 V))"
      by (subst K) (simp add: mm_assoc)
    also have "\<dots> = trace3 (mm (transpose3 V) (mm Q (mm U (diag3 s))))"
      by (rule trace3_mm_commute)
    also have "\<dots> = trace3 (mm W (diag3 s))"
      by (simp add: W_def mm_assoc)
    finally show ?thesis
      using tQ by (simp add: trace3_mm_diag3 w1_def w2_def w3_def)
  qed
  have nn: "0 \<le> vx s" "0 \<le> vy s" "0 \<le> vz s"
    using ord by linarith+
  have t1: "0 \<le> (1 - w1) * vx s" and t2: "0 \<le> (1 - w2) * vy s" and t3: "0 \<le> (1 - w3) * vz s"
    using w nn by simp_all
  have "(1 - w1) * vx s + (1 - w2) * vy s + (1 - w3) * vz s = vx s + vy s + vz s - m"
    by (simp add: m_eq algebra_simps)
  with sum_le t1 t2 t3 have tot: "(1 - w1) * vx s + (1 - w2) * vy s + (1 - w3) * vz s = 0"
    by linarith
  then have sum_eq: "vx s + vy s + vz s = m"
    by (simp add: m_eq algebra_simps)
  have z: "(1 - w1) * vx s = 0" "(1 - w2) * vy s = 0" "(1 - w3) * vz s = 0"
    using three_terms_zero [OF tot t1 t2 t3] .
  have T: "trace3 (mm (procrustes_R svd K) K) = vx s + vy s + sgn (det3 U * det3 V) * vz s"
  proof -
    have "trace3 (mm (mm V (mm (Z_fix U V) (transpose3 U)))
                     (mm U (mm (diag3 s) (transpose3 V)))) =
          trace3 (mm (Z_fix U V) (diag3 s))"
      by (rule trace3_diag_conjugate [OF oU oV])
    then show ?thesis
      by (simp add: procrustes_R_def usv trace3_Z_fix_diag flip: K)
  qed
  have "det3 U * det3 V = 1 \<or> det3 U * det3 V = - 1"
    using orthogonal3_det [OF oU] orthogonal3_det [OF oV] by auto
  then show ?thesis
  proof
    assume "det3 U * det3 V = 1"
    then show ?thesis using T sum_eq by simp
  next
    assume neg: "det3 U * det3 V = - 1"
    have "vz s = 0"
    proof (rule ccontr)
      assume "vz s \<noteq> 0"
      with ord have pos: "0 < vx s" "0 < vy s" "0 < vz s" by linarith+
      with z have "w1 = 1" "w2 = 1" "w3 = 1" by simp_all
      then have "W = eye3"
        by (intro unit_diagonal_orthogonal [OF oW]) (simp_all add: w1_def w2_def w3_def)
      then have "det3 W = 1" by (simp add: det3_eye)
      moreover have "det3 W = det3 V * det3 U"
        by (simp add: W_def det3_mm det3_transpose dQ)
      ultimately show False using neg by (simp add: mult.commute)
    qed
    then show ?thesis using T sum_eq by simp
  qed
qed

section \<open>A point set against its image under a similarity\<close>

lemma dot_smul_right: "dot a (smul k b) = k * dot a b"
  by (cases a; cases b) (simp add: algebra_simps)

lemma dot_vadd_right: "dot a (vadd b c) = dot a b + dot a c"
  by (cases a; cases b; cases c) (simp add: algebra_simps)

lemma dot_vsub_right: "dot a (vsub b c) = dot a b - dot a c"
  by (cases a; cases b; cases c) (simp add: algebra_simps)

lemma dot_vsub_left: "dot (vsub b c) a = dot b a - dot c a"
  by (cases a; cases b; cases c) (simp add: algebra_simps)

lemma mv_vsub: "mv A (vsub b c) = vsub (mv A b) (mv A c)"
  by (rule vec3_eqI) (simp_all add: dot_vsub_right)

lemma dot_self_nonneg: "0 \<le> dot a a"
  by (cases a) simp

lemma dot_self_zero: "dot a a = 0 \<Longrightarrow> a = Vec3 0 0 0"
proof (cases a)
  case (Vec3 x y z)
  assume "dot a a = 0"
  with Vec3 have "x * x + y * y + z * z = 0" by simp
  then have "x = 0 \<and> y = 0 \<and> z = 0"
    using three_terms_zero [of "x * x" "y * y" "z * z"] by simp
  with Vec3 show ?thesis by simp
qed

lemma vsub_zero: "vsub a b = Vec3 0 0 0 \<Longrightarrow> a = b"
  by (cases a; cases b) simp

lemma dot_le_squares: "2 * dot a b \<le> dot a a + dot b b"
proof -
  have "0 \<le> dot (vsub a b) (vsub a b)" by (rule dot_self_nonneg)
  also have "\<dots> = dot a a + dot b b - 2 * dot a b"
    by (simp add: dot_vsub_left dot_vsub_right dot_commute)
  finally show ?thesis by simp
qed

lemma trace3_mm_zero: "trace3 (mm A (Mat3 (Vec3 0 0 0) (Vec3 0 0 0) (Vec3 0 0 0))) = 0"
  by (cases A rule: mat3_cases) simp

lemma trace3_mm_madd: "trace3 (mm A (madd B C)) = trace3 (mm A B) + trace3 (mm A C)"
  by (cases A rule: mat3_cases; cases B rule: mat3_cases; cases C rule: mat3_cases)
     (simp add: algebra_simps)

lemma trace3_mm_outer: "trace3 (mm A (outer x y)) = dot (mv A x) y"
  by (cases A rule: mat3_cases; cases x; cases y) (simp add: algebra_simps)

lemma trace3_cross_covariance:
  "trace3 (mm A (cross_covariance xs (map f xs))) = sum_list (map (\<lambda>x. dot (mv A x) (f x)) xs)"
  by (induction xs) (simp_all add: trace3_mm_zero trace3_mm_madd trace3_mm_outer)

lemma sum_list_scale: "sum_list (map (\<lambda>x. k * f x) xs) = k * sum_list (map f xs)" for k :: real
  by (induction xs) (simp_all add: algebra_simps)

lemma trace_of_true_rotation:
  assumes "orthogonal3 Q"
  shows "trace3 (mm Q (cross_covariance xs (map (\<lambda>x. smul s (mv Q x)) xs))) =
         s * sum_list (map (\<lambda>x. dot x x) xs)"
  by (simp add: trace3_cross_covariance dot_smul_right orthogonal3_dot [OF assms] sum_list_scale)

lemma trace_of_any_rotation:
  assumes "orthogonal3 P" "orthogonal3 Q" "0 \<le> s"
  shows "trace3 (mm P (cross_covariance xs (map (\<lambda>x. smul s (mv Q x)) xs))) \<le>
         s * sum_list (map (\<lambda>x. dot x x) xs)"
proof -
  have "dot (mv P x) (mv Q x) \<le> dot x x" for x
    using dot_le_squares [of "mv P x" "mv Q x"]
    by (simp add: orthogonal3_dot [OF assms(1)] orthogonal3_dot [OF assms(2)])
  then have "sum_list (map (\<lambda>x. dot (mv P x) (mv Q x)) xs) \<le> sum_list (map (\<lambda>x. dot x x) xs)"
    by (intro sum_list_mono) simp
  then have "s * sum_list (map (\<lambda>x. dot (mv P x) (mv Q x)) xs) \<le>
             s * sum_list (map (\<lambda>x. dot x x) xs)"
    using assms(3) by (rule mult_left_mono)
  then show ?thesis
    by (simp add: trace3_cross_covariance dot_smul_right sum_list_scale)
qed

lemma rotations_agree_on_points:
  assumes oR: "orthogonal3 R" and oQ: "orthogonal3 Q" and s: "0 < s"
    and tr: "trace3 (mm R (cross_covariance xs (map (\<lambda>x. smul s (mv Q x)) xs))) =
             s * sum_list (map (\<lambda>x. dot x x) xs)"
  shows "\<forall>x \<in> set xs. mv R x = mv Q x"
proof -
  let ?v = "sum_list (map (\<lambda>x. dot x x) xs)"
  have "s * sum_list (map (\<lambda>x. dot (mv R x) (mv Q x)) xs) = s * ?v"
    using tr by (simp add: trace3_cross_covariance dot_smul_right sum_list_scale)
  with s have c: "sum_list (map (\<lambda>x. dot (mv R x) (mv Q x)) xs) = ?v" by simp
  have e: "dot (vsub (mv R x) (mv Q x)) (vsub (mv R x) (mv Q x)) =
           2 * dot x x - 2 * dot (mv R x) (mv Q x)" for x
    by (simp add: dot_vsub_left dot_vsub_right orthogonal3_dot [OF oR] orthogonal3_dot [OF oQ]
        dot_commute)
  have "sum_list (map (\<lambda>x. dot (vsub (mv R x) (mv Q x)) (vsub (mv R x) (mv Q x))) xs) =
        2 * ?v - 2 * sum_list (map (\<lambda>x. dot (mv R x) (mv Q x)) xs)"
    unfolding e by (induction xs) (simp_all add: algebra_simps)
  then have "sum_list (map (\<lambda>x. dot (vsub (mv R x) (mv Q x)) (vsub (mv R x) (mv Q x))) xs) = 0"
    using c by simp
  then have "\<forall>d \<in> set (map (\<lambda>x. dot (vsub (mv R x) (mv Q x)) (vsub (mv R x) (mv Q x))) xs). d = 0"
    by (subst (asm) sum_list_nonneg_eq_0_iff) (auto simp: dot_self_nonneg)
  then have "\<forall>x \<in> set xs. vsub (mv R x) (mv Q x) = Vec3 0 0 0"
    by (auto intro: dot_self_zero)
  then show ?thesis
    by (auto intro: vsub_zero)
qed

lemma procrustes_R_alt:
  "procrustes_R svd K = (case svd K of (U, s, V) \<Rightarrow> mm V (mm (Z_fix U V) (transpose3 U)))"
  by (simp add: procrustes_R_def)

lemma procrustes_R_orthogonal:
  assumes "svd K = (U, s, V)" "orthogonal3 U" "orthogonal3 V"
  shows "orthogonal3 (procrustes_R svd K)"
  unfolding procrustes_R_def assms(1) prod.case Let_def
  by (intro orthogonal3_mm orthogonal3_transpose orthogonal3_Z_fix assms(2,3))

lemma sum_list_dot: "sum_list (map (dot r) S) = dot r (vsum S)"
  by (induction S) (simp_all add: vsum_def dot_vadd_right, cases r, simp)

lemma sum_list_affine:
  "sum_list (map (\<lambda>p. k * f p + c) S) = k * sum_list (map f S) + real (length S) * c"
  by (induction S) (simp_all add: algebra_simps)

lemma centroid_affine:
  assumes "S \<noteq> []"
  shows "centroid (map (\<lambda>p. vadd (smul s (mv Q p)) t) S) = vadd (smul s (mv Q (centroid S))) t"
proof -
  have n: "real (length S) \<noteq> 0" using assms by simp
  have c: "sum_list (map (\<lambda>p. s * dot r p + c) S) / real (length S) =
           s * dot r (smul (1 / real (length S)) (vsum S)) + c" for r c
    unfolding sum_list_affine sum_list_dot dot_smul_right
    using n by (simp add: field_simps)
  show ?thesis
    by (rule vec3_eqI)
       (simp_all add: centroid_def vsum_components comp_def c [unfolded centroid_def])
qed

lemma affine_difference:
  "vsub (vadd (smul s (mv Q p)) t) (vadd (smul s (mv Q m)) t) = smul s (mv Q (vsub p m))"
  by (rule vec3_eqI) (simp_all add: dot_vsub_right algebra_simps)

lemma residual_vanishes:
  assumes "mv R (vsub p m) = mv Q (vsub p m)"
  shows "vsub (vadd (smul s (mv R p)) (vsub (vadd (smul s (mv Q m)) t) (smul s (mv R m))))
              (vadd (smul s (mv Q p)) t) = Vec3 0 0 0"
proof -
  from assms have "vsub (mv R p) (mv R m) = vsub (mv Q p) (mv Q m)"
    by (simp add: mv_vsub)
  then have e: "vx (mv R p) - vx (mv R m) = vx (mv Q p) - vx (mv Q m)"
    "vy (mv R p) - vy (mv R m) = vy (mv Q p) - vy (mv Q m)"
    "vz (mv R p) - vz (mv R m) = vz (mv Q p) - vz (mv Q m)"
    by (metis vsub_components(1), metis vsub_components(2), metis vsub_components(3))
  have "s * a + (s * d + t' - s * b) - (s * c + t') = s * ((a - b) - (c - d))"
    for a b c d t' :: real
    by (simp add: algebra_simps)
  then show ?thesis
    using e by (intro vec3_eqI) (simp_all del: mv_components)
qed

lemma variance_positive:
  assumes "p \<in> set S" "q \<in> set S" "p \<noteq> q"
  shows "sum_list (map (\<lambda>x. dot x x) (map (\<lambda>p. vsub p m) S)) \<noteq> 0"
proof
  assume "sum_list (map (\<lambda>x. dot x x) (map (\<lambda>p. vsub p m) S)) = 0"
  then have "\<forall>d \<in> set (map (\<lambda>x. dot x x) (map (\<lambda>p. vsub p m) S)). d = 0"
    by (subst (asm) sum_list_nonneg_eq_0_iff) (auto simp: dot_self_nonneg)
  then have "\<forall>p \<in> set S. vsub p m = Vec3 0 0 0"
    by (auto intro: dot_self_zero)
  then have a: "\<forall>p \<in> set S. p = m"
    by (auto intro: vsub_zero)
  have "p = m" using a assms(1) by (rule bspec)
  moreover have "q = m" using a assms(2) by (rule bspec)
  ultimately show False using assms(3) by simp
qed

lemma similar_cross_covariance:
  assumes "S \<noteq> []"
  shows "mm_T (centered S) (centered (map (\<lambda>p. vadd (smul s (mv Q p)) t) S)) =
         cross_covariance (map (\<lambda>p. vsub p (centroid S)) S)
           (map (\<lambda>x. smul s (mv Q x)) (map (\<lambda>p. vsub p (centroid S)) S))"
  unfolding centered_points mm_T_transposeT centroid_affine [OF assms]
  by (simp add: comp_def affine_difference)

lemma procrustes_loss_of_similar:
  assumes Q: "rotation3 Q" and s: "0 < s"
    and var: "sum_list (map (\<lambda>x. dot x x) (map (\<lambda>p. vsub p (centroid S)) S)) \<noteq> 0"
    and at: "svd_at svd (mm_T (centered S) (centered (map (\<lambda>p. vadd (smul s (mv Q p)) t) S)))"
  shows "procrustes_loss svd S (map (\<lambda>p. vadd (smul s (mv Q p)) t) S) = Inr 0"
proof -
  let ?f = "\<lambda>p. vadd (smul s (mv Q p)) t"
  let ?xs = "map (\<lambda>p. vsub p (centroid S)) S"
  let ?g = "\<lambda>x. smul s (mv Q x)"
  let ?K = "cross_covariance ?xs (map ?g ?xs)"
  let ?var = "sum_list (map (\<lambda>x. dot x x) ?xs)"
  from var have ne: "S \<noteq> []" by auto
  from Q have oQ: "orthogonal3 Q" by (simp add: rotation3_def)
  have K: "mm_T (centered S) (centered (map ?f S)) = ?K"
    by (rule similar_cross_covariance [OF ne])
  have C2: "map (\<lambda>q. vsub q (vadd (smul s (mv Q (centroid S))) t)) (map ?f S) = map ?g ?xs"
    by (simp add: comp_def affine_difference)
  from at have atK: "svd_at svd ?K" unfolding K .
  obtain U sv V where usv: "svd ?K = (U, sv, V)" by (metis prod_cases3)
  with atK have oU: "orthogonal3 U" and oV: "orthogonal3 V" by (auto simp: svd_at_def)
  let ?R = "procrustes_R svd ?K"
  have oR: "orthogonal3 ?R" by (rule procrustes_R_orthogonal) (rule usv oU oV)+
  have tr: "trace3 (mm ?R ?K) = s * ?var"
  proof (rule procrustes_trace)
    show "svd ?K = (U, sv, V)" by (rule usv)
    show "svd_at svd ?K" by (rule atK)
    show "rotation3 Q" by (rule Q)
    show "trace3 (mm Q ?K) = s * ?var"
      by (rule trace_of_true_rotation [OF oQ])
    show "trace3 (mm (mm V (transpose3 U)) ?K) \<le> s * ?var"
      using s by (intro trace_of_any_rotation orthogonal3_mm orthogonal3_transpose oU oV oQ) simp
  qed
  have agree: "\<forall>x \<in> set ?xs. mv ?R x = mv Q x"
    by (rule rotations_agree_on_points [OF oR oQ s tr])
  have scale: "trace3 (mm ?R ?K) / ?var = s"
    unfolding tr using var by simp
  have zero: "norm3 (vsub (vadd (smul s (mv ?R p))
                  (vsub (vadd (smul s (mv Q (centroid S))) t) (smul s (mv ?R (centroid S)))))
                (?f p)) = 0" if "p \<in> set S" for p
  proof -
    from that agree have "mv ?R (vsub p (centroid S)) = mv Q (vsub p (centroid S))" by simp
    then show ?thesis by (simp only: residual_vanishes) (simp add: norm3_def)
  qed
  have sum0: "sum_list (map (\<lambda>(p, q). norm3 (vsub (vadd (smul s (mv ?R p))
                  (vsub (vadd (smul s (mv Q (centroid S))) t) (smul s (mv ?R (centroid S)))))
                q)) (zip S (map ?f S))) = 0"
  proof -
    have "map (\<lambda>(p, q). norm3 (vsub (vadd (smul s (mv ?R p))
                  (vsub (vadd (smul s (mv Q (centroid S))) t) (smul s (mv ?R (centroid S)))))
                q)) (zip S (map ?f S)) = map (\<lambda>p. 0) S"
      using zero by (simp add: zip_map2 zip_same_conv_map)
    then show ?thesis by simp
  qed
  have "spec_procrustes svd S (map ?f S) = Inr 0"
    unfolding spec_procrustes_def Let_def centroid_affine [OF ne] C2
      procrustes_R_alt [symmetric] scale sum0
    using ne var by simp
  then show ?thesis
    by (simp add: procrustes_loss_pointwise)
qed

text \<open>
  Claim C1. For two point sets of the same number of points, \<^verbatim>\<open>procrustes_loss\<close>, which
  works on the transposed tensors, returns what the algorithm of the specification
  returns on the points: both sets centred on their centroids, \<open>var1\<close> the sum of the
  squared norms of the centred \<open>S1\<close>, \<open>K\<close> the cross-covariance, \<open>R = V Z U\<^sup>T\<close> from the
  decomposition of \<open>K\<close> with the sign-corrected identity \<open>Z\<close>, \<open>scale = trace(R K) / var1\<close>,
  \<open>t = mu2 - scale R mu1\<close>, and the mean distance of \<open>scale R S1\<^sub>i + t\<close> from \<open>S2\<^sub>i\<close> (NaN
  where \<open>var1 = 0\<close> or there is no point).
\<close>

theorem procrustes_loss_follows_algorithm:
  "length S1 = length S2 \<Longrightarrow> procrustes_loss svd S1 S2 = spec_procrustes svd S1 S2"
  by (simp add: procrustes_loss_pointwise)

theorem procrustes_loss_follows_algorithm_witness:
  "length example_S1 = length example_S2 \<and>
   procrustes_loss svd_diag example_S1 example_S2 = Inr 0"
proof -
  have l: "length example_S1 = length example_S2"
    by (simp add: example_S1_def example_S2_def)
  have c: "centroid example_S1 = Vec3 0 0 0" "centroid example_S2 = Vec3 1 1 1"
    by (simp_all add: example_S1_def example_S2_def centroid_def vsum_def)
  have k: "cross_covariance (map (\<lambda>p. vsub p (Vec3 0 0 0)) example_S1)
             (map (\<lambda>q. vsub q (Vec3 1 1 1)) example_S2) =
           Mat3 (Vec3 4 0 0) (Vec3 0 4 0) (Vec3 0 0 0)"
    by (simp add: example_S1_def example_S2_def)
  have "spec_procrustes svd_diag example_S1 example_S2 = Inr 0"
    unfolding spec_procrustes_def Let_def c k
    by (simp add: svd_diag_def Z_fix_def eye3_def)
       (simp add: example_S1_def example_S2_def norm3_def)
  with procrustes_loss_follows_algorithm [OF l, of svd_diag] l show ?thesis by simp
qed

text \<open>
  Claim C7, as the code has it. Let \<open>S\<close> hold two different points, \<open>Q\<close> be a proper
  rotation, \<open>s > 0\<close> and \<open>t\<close> a translation, and let \<open>svd\<close> decompose the matrix \<open>K\<close> of \<open>S\<close>
  and its image as PyTorch documents. Then \<^verbatim>\<open>procrustes_loss\<close> of \<open>S\<close> and the image
  \<open>s Q S + t\<close> is \<open>0\<close> (in exact arithmetic).
\<close>

theorem procrustes_loss_of_similar_copy:
  assumes "rotation3 Q" and "0 < s" and "p \<in> set S" and "q \<in> set S" and "p \<noteq> q"
    and "svd_at svd (mm_T (centered S) (centered (map (\<lambda>p. vadd (smul s (mv Q p)) t) S)))"
  shows "procrustes_loss svd S (map (\<lambda>p. vadd (smul s (mv Q p)) t) S) = Inr 0"
  using assms(1,2) variance_positive [OF assms(3,4,5)] assms(6)
  by (rule procrustes_loss_of_similar)

theorem procrustes_loss_of_similar_copy_witness:
  "rotation3 (Mat3 (Vec3 0 (- 1) 0) (Vec3 1 0 0) (Vec3 0 0 1)) \<and>
   Vec3 1 0 0 \<in> set example_S1 \<and> Vec3 0 1 0 \<in> set example_S1 \<and>
   procrustes_loss (\<lambda>M. (eye3, Vec3 4 4 0, Mat3 (Vec3 0 (- 1) 0) (Vec3 1 0 0) (Vec3 0 0 1)))
     example_S1
     (map (\<lambda>p. vadd (smul 2 (mv (Mat3 (Vec3 0 (- 1) 0) (Vec3 1 0 0) (Vec3 0 0 1)) p)) (Vec3 1 1 1))
        example_S1) = Inr 0"
proof -
  let ?Q = "Mat3 (Vec3 0 (- 1) 0) (Vec3 1 0 0) (Vec3 0 0 1)"
  let ?svd = "\<lambda>M :: mat3. (eye3, Vec3 4 4 0, ?Q)"
  have r: "rotation3 ?Q"
    by (simp add: rotation3_def orthogonal3_def eye3_def)
  have m: "Vec3 1 0 0 \<in> set example_S1" "Vec3 0 1 0 \<in> set example_S1"
    by (simp_all add: example_S1_def)
  have k: "mm_T (centered example_S1)
             (centered (map (\<lambda>p. vadd (smul 2 (mv ?Q p)) (Vec3 1 1 1)) example_S1)) =
           Mat3 (Vec3 0 4 0) (Vec3 (- 4) 0 0) (Vec3 0 0 0)"
    by (simp add: example_S1_def centered_def transposeT_def mean_row_def inner_rows_def)
  have a: "svd_at ?svd (mm_T (centered example_S1)
             (centered (map (\<lambda>p. vadd (smul 2 (mv ?Q p)) (Vec3 1 1 1)) example_S1)))"
    unfolding k by (simp add: svd_at_def orthogonal3_def eye3_def diag3_def)
  show ?thesis
    using procrustes_loss_of_similar_copy [OF r _ m _ a] r m by simp
qed

text \<open>
  The claim as stated fails for three equal points (with the identity rotation, scale \<open>1\<close>
  and no translation): \<open>var1 = 0\<close>, the scale is \<open>0/0\<close>, and the loss is NaN.
\<close>

theorem procrustes_loss_of_equal_points:
  "3 \<le> length [Vec3 1 2 3, Vec3 1 2 3, Vec3 1 2 3] \<and>
   rotation3 eye3 \<and>
   svd_at svd_diag (mm_T (centered [Vec3 1 2 3, Vec3 1 2 3, Vec3 1 2 3])
      (centered (map (\<lambda>p. vadd (smul 1 (mv eye3 p)) (Vec3 0 0 0))
         [Vec3 1 2 3, Vec3 1 2 3, Vec3 1 2 3]))) \<and>
   procrustes_loss svd_diag [Vec3 1 2 3, Vec3 1 2 3, Vec3 1 2 3]
     (map (\<lambda>p. vadd (smul 1 (mv eye3 p)) (Vec3 0 0 0)) [Vec3 1 2 3, Vec3 1 2 3, Vec3 1 2 3]) =
   Inl NotANumber"
proof -
  have k: "mm_T (centered [Vec3 1 2 3, Vec3 1 2 3, Vec3 1 2 3])
      (centered (map (\<lambda>p. vadd (smul 1 (mv eye3 p)) (Vec3 0 0 0))
         [Vec3 1 2 3, Vec3 1 2 3, Vec3 1 2 3])) =
      Mat3 (Vec3 0 0 0) (Vec3 0 0 0) (Vec3 0 0 0)"
    by (simp add: centered_def transposeT_def mean_row_def inner_rows_def eye3_def)
  have a: "svd_at svd_diag (Mat3 (Vec3 0 0 0) (Vec3 0 0 0) (Vec3 0 0 0))"
    by (rule svd_diag_at) simp_all
  have r: "rotation3 eye3"
    by (simp add: rotation3_def orthogonal3_def eye3_def)
  have "procrustes_loss svd_diag [Vec3 1 2 3, Vec3 1 2 3, Vec3 1 2 3]
     (map (\<lambda>p. vadd (smul 1 (mv eye3 p)) (Vec3 0 0 0)) [Vec3 1 2 3, Vec3 1 2 3, Vec3 1 2 3]) =
   Inl NotANumber"
    by (simp add: procrustes_loss_def centered_def transposeT_def mean_row_def)
  then show ?thesis unfolding k using a r by simp
qed

section \<open>The rotation nearest to a matrix\<close>

lemma rotation_cofactors:
  assumes "rotation3 (Mat3 (Vec3 a b c) (Vec3 d e f) (Vec3 g h i))"
  shows "e * i - f * h = a" "a * i - c * g = e" "a * e - b * d = i"
proof -
  let ?P = "Mat3 (Vec3 a b c) (Vec3 d e f) (Vec3 g h i)"
  let ?C = "Mat3 (Vec3 (e * i - f * h) (- (d * i - f * g)) (d * h - e * g))
                 (Vec3 (- (b * i - c * h)) (a * i - c * g) (- (a * h - b * g)))
                 (Vec3 (b * f - c * e) (- (a * f - c * d)) (a * e - b * d))"
  from assms have o: "orthogonal3 ?P" and d: "det3 ?P = 1" by (simp_all add: rotation3_def)
  have "mm ?P (transpose3 ?C) = diag3 (Vec3 (det3 ?P) (det3 ?P) (det3 ?P))"
    by (simp add: diag3_def algebra_simps)
  then have "mm ?P (transpose3 ?C) = eye3"
    by (simp only: d scalar_matrix_eye)
  then have "mm (transpose3 ?P) (mm ?P (transpose3 ?C)) = transpose3 ?P"
    by (simp only: mm_eye_right)
  then have "transpose3 ?C = transpose3 ?P"
    by (simp only: orthogonal3_cancel_left [OF o])
  then show "e * i - f * h = a" "a * i - c * g = e" "a * e - b * d = i"
    by simp_all
qed

lemma rotation_trace_lower:
  assumes "rotation3 P"
  shows "- 1 \<le> trace3 P"
proof (cases P rule: mat3_cases)
  case (1 a b c d e f g h i)
  note cf = rotation_cofactors [OF assms [unfolded 1]]
  from assms 1 have r: "a * a + b * b + c * c = 1" "d * d + e * e + f * f = 1"
    "g * g + h * h + i * i = 1"
    by (simp_all add: rotation3_def orthogonal3_def eye3_def)
  define t where "t = a + e + i"
  have "(h - f) * (h - f) + (c - g) * (c - g) + (d - b) * (d - b) = 3 + 2 * t - t * t"
    using r cf unfolding t_def by (simp add: algebra_simps)
  moreover have "0 \<le> (h - f) * (h - f) + (c - g) * (c - g) + (d - b) * (d - b)"
    by simp
  ultimately have "0 \<le> (3 - t) * (1 + t)"
    by (simp add: algebra_simps)
  then have "- 1 \<le> t"
    by (smt (verit) mult_less_0_iff)
  then show ?thesis by (simp add: 1 t_def)
qed

lemma matrix_norm_trace: "matrix_norm X = sqrt (trace3 (mm (transpose3 X) X))"
  by (cases X rule: mat3_cases) (simp add: algebra_simps)

lemma trace3_difference:
  "trace3 (mm (transpose3 (msub M Q)) (msub M Q)) =
     trace3 (mm (transpose3 M) M) - 2 * trace3 (mm (transpose3 Q) M) +
     trace3 (mm (transpose3 Q) Q)"
  by (cases M rule: mat3_cases; cases Q rule: mat3_cases) (simp add: algebra_simps)

lemma orthogonal3_trace: "orthogonal3 Q \<Longrightarrow> trace3 (mm (transpose3 Q) Q) = 3"
  by (simp add: orthogonal3_def eye3_def)

lemma orthogonal3_negation: "orthogonal3 (diag3 (Vec3 (- 1) (- 1) (- 1)))"
  by (simp add: orthogonal3_def diag3_def eye3_def)

lemma trace3_negation: "trace3 (mm (diag3 (Vec3 (- 1) (- 1) (- 1))) W) = - trace3 W"
  by (cases W rule: mat3_cases) (simp add: diag3_def)

lemma improper_trace_upper:
  assumes "orthogonal3 W" "det3 W = - 1"
  shows "trace3 W \<le> 1"
proof -
  let ?P = "mm (diag3 (Vec3 (- 1) (- 1) (- 1))) W"
  have "orthogonal3 ?P" by (intro orthogonal3_mm orthogonal3_negation assms(1))
  moreover have "det3 ?P = 1" by (simp add: det3_mm assms(2)) (simp add: diag3_def)
  ultimately have "- 1 \<le> trace3 ?P" by (intro rotation_trace_lower) (simp add: rotation3_def)
  then show ?thesis by (simp add: trace3_negation)
qed

lemma diagonal_trace_bound:
  assumes oW: "orthogonal3 W" and ord: "vy s \<le> vx s" "vz s \<le> vy s" "0 \<le> vz s"
  shows "trace3 (mm W (diag3 s)) \<le> vx s + vy s + sgn (det3 W) * vz s"
proof -
  define w1 w2 w3 where "w1 = vx (row1 W)" and "w2 = vy (row2 W)" and "w3 = vz (row3 W)"
  have w: "w1 \<le> 1" "w2 \<le> 1" "w3 \<le> 1"
    using orthogonal3_diagonal_le_1 [OF oW] by (simp_all add: w1_def w2_def w3_def)
  have t: "trace3 (mm W (diag3 s)) = w1 * vx s + w2 * vy s + w3 * vz s"
    by (simp add: trace3_mm_diag3 w1_def w2_def w3_def)
  have tw: "trace3 W = w1 + w2 + w3"
    by (cases W rule: mat3_cases) (simp add: w1_def w2_def w3_def)
  from orthogonal3_det [OF oW] show ?thesis
  proof
    assume d: "det3 W = 1"
    have nn: "0 \<le> vx s" "0 \<le> vy s" using ord by linarith+
    have "w1 * vx s \<le> 1 * vx s" "w2 * vy s \<le> 1 * vy s" "w3 * vz s \<le> 1 * vz s"
      using w nn ord(3) by (intro mult_right_mono; simp)+
    then show ?thesis by (simp add: t d)
  next
    assume d: "det3 W = - 1"
    have "trace3 W \<le> 1" by (rule improper_trace_upper [OF oW d])
    then have "0 \<le> (1 - w1 - w2 - w3) * vz s"
      using ord(3) by (simp add: tw)
    moreover have "0 \<le> (1 - w1) * (vx s - vz s)" "0 \<le> (1 - w2) * (vy s - vz s)"
      using w ord by simp_all
    ultimately have "w1 * vx s + w2 * vy s + w3 * vz s \<le> vx s + vy s - vz s"
      by (simp add: algebra_simps)
    then show ?thesis by (simp add: t d)
  qed
qed

lemma transpose3_Z_fix: "transpose3 (Z_fix U V) = Z_fix U V"
  by (simp add: Z_fix_def)

lemma closest_rotation_is_rotation:
  assumes "svd_at svd M"
  shows "rotation3 (closest_rotation svd M)"
proof -
  obtain U s V where usv: "svd M = (U, s, V)" by (metis prod_cases3)
  with assms have oU: "orthogonal3 U" and oV: "orthogonal3 V" by (auto simp: svd_at_def)
  have "orthogonal3 (mm U (mm (Z_fix U V) (transpose3 V)))"
    by (intro orthogonal3_mm orthogonal3_transpose orthogonal3_Z_fix oU oV)
  then have "orthogonal3 (closest_rotation svd M)"
    by (simp add: closest_rotation_def usv)
  moreover have "det3 (closest_rotation svd M) = 1"
    using usv oU oV by (rule closest_rotation_det)
  ultimately show ?thesis by (simp add: rotation3_def)
qed

lemma closest_rotation_nearest:
  assumes at: "svd_at svd M" and Q: "rotation3 Q"
  shows "matrix_norm (msub M (closest_rotation svd M)) \<le> matrix_norm (msub M Q)"
proof -
  obtain U s V where usv: "svd M = (U, s, V)" by (metis prod_cases3)
  with at have oU: "orthogonal3 U" and oV: "orthogonal3 V"
    and M: "M = mm U (mm (diag3 s) (transpose3 V))"
    and ord: "vy s \<le> vx s" "vz s \<le> vy s" "0 \<le> vz s"
    by (auto simp: svd_at_def)
  from Q have oQ: "orthogonal3 Q" and dQ: "det3 Q = 1" by (simp_all add: rotation3_def)
  let ?R = "closest_rotation svd M"
  have oR: "orthogonal3 ?R"
    using closest_rotation_is_rotation [OF at] by (simp add: rotation3_def)
  have Rt: "transpose3 ?R = mm V (mm (Z_fix U V) (transpose3 U))"
    by (simp add: closest_rotation_def usv transpose3_mm transpose3_transpose3 transpose3_Z_fix
        mm_assoc)
  have "trace3 (mm (mm V (mm (Z_fix U V) (transpose3 U))) (mm U (mm (diag3 s) (transpose3 V)))) =
        trace3 (mm (Z_fix U V) (diag3 s))"
    by (rule trace3_diag_conjugate [OF oU oV])
  then have tR: "trace3 (mm (transpose3 ?R) M) = vx s + vy s + sgn (det3 U * det3 V) * vz s"
    unfolding Rt by (simp add: trace3_Z_fix_diag flip: M)
  define W where "W = mm (transpose3 V) (mm (transpose3 Q) U)"
  have oW: "orthogonal3 W"
    unfolding W_def by (intro orthogonal3_mm orthogonal3_transpose oV oQ oU)
  have dW: "det3 W = det3 U * det3 V"
    by (simp add: W_def det3_mm det3_transpose dQ)
  have "trace3 (mm (transpose3 Q) M) =
        trace3 (mm (mm (transpose3 Q) (mm U (diag3 s))) (transpose3 V))"
    by (subst M) (simp add: mm_assoc)
  also have "\<dots> = trace3 (mm (transpose3 V) (mm (transpose3 Q) (mm U (diag3 s))))"
    by (rule trace3_mm_commute)
  also have "\<dots> = trace3 (mm W (diag3 s))"
    by (simp add: W_def mm_assoc)
  also have "\<dots> \<le> vx s + vy s + sgn (det3 W) * vz s"
    by (rule diagonal_trace_bound [OF oW ord])
  finally have "trace3 (mm (transpose3 Q) M) \<le> trace3 (mm (transpose3 ?R) M)"
    by (simp add: tR dW)
  then have "trace3 (mm (transpose3 (msub M ?R)) (msub M ?R)) \<le>
             trace3 (mm (transpose3 (msub M Q)) (msub M Q))"
    by (simp add: trace3_difference orthogonal3_trace [OF oR] orthogonal3_trace [OF oQ])
  then show ?thesis
    by (simp add: matrix_norm_trace)
qed

section \<open>The energy loss\<close>

text \<open>
  Claim C2, as the code has it. For Jacobians and actuations of the same batch size, with
  \<open>svd\<close> decomposing each \<open>M\<^sub>i = J\<^sub>i A\<^sub>i\<close> as PyTorch documents, \<^verbatim>\<open>energy_loss\<close> builds for
  each sample the rotation \<open>R\<^sub>i = U\<^sub>i Z\<^sub>i V\<^sub>i\<^sup>T\<close> from the decomposition of \<open>M\<^sub>i\<close>. This \<open>R\<^sub>i\<close> is a
  proper rotation, and no proper rotation is nearer to \<open>M\<^sub>i\<close> in the Frobenius norm. The
  loss returned is the mean over the batch of the Frobenius distance of the Jacobian \<open>J\<^sub>i\<close>
  from \<open>R\<^sub>i A\<^sub>i\<close>, not of \<open>M\<^sub>i\<close> from \<open>R\<^sub>i\<close>. (Batches of different sizes raise; a batch of no
  sample gives NaN.)
\<close>

theorem energy_loss_residual:
  assumes "\<forall>(J, A) \<in> set (zip jacobian actuations). svd_at svd (mm J A)"
  shows "energy_loss svd jacobian actuations =
           (if length jacobian \<noteq> length actuations then Inl RuntimeError
            else mean (map (\<lambda>(J, A). matrix_norm (msub J (mm (closest_rotation svd (mm J A)) A)))
                         (zip jacobian actuations))) \<and>
         (\<forall>(J, A) \<in> set (zip jacobian actuations).
            rotation3 (closest_rotation svd (mm J A)) \<and>
            (\<forall>Q. rotation3 Q \<longrightarrow>
               matrix_norm (msub (mm J A) (closest_rotation svd (mm J A))) \<le>
               matrix_norm (msub (mm J A) Q)))"
  using assms
  by (auto simp: energy_loss_per_sample closest_rotation_is_rotation closest_rotation_nearest)

theorem energy_loss_residual_witness:
  "svd_at (\<lambda>M. (eye3, Vec3 2 1 1, Mat3 (Vec3 1 0 0) (Vec3 0 1 0) (Vec3 0 0 (- 1))))
     (mm (Mat3 (Vec3 2 0 0) (Vec3 0 1 0) (Vec3 0 0 (- 1))) eye3) \<and>
   energy_loss (\<lambda>M. (eye3, Vec3 2 1 1, Mat3 (Vec3 1 0 0) (Vec3 0 1 0) (Vec3 0 0 (- 1))))
     [Mat3 (Vec3 2 0 0) (Vec3 0 1 0) (Vec3 0 0 (- 1))] [eye3] = Inr (sqrt 5) \<and>
   rotation3 (closest_rotation
     (\<lambda>M. (eye3, Vec3 2 1 1, Mat3 (Vec3 1 0 0) (Vec3 0 1 0) (Vec3 0 0 (- 1))))
     (mm (Mat3 (Vec3 2 0 0) (Vec3 0 1 0) (Vec3 0 0 (- 1))) eye3)) \<and>
   matrix_norm (msub (mm (Mat3 (Vec3 2 0 0) (Vec3 0 1 0) (Vec3 0 0 (- 1))) eye3)
     (closest_rotation
        (\<lambda>M. (eye3, Vec3 2 1 1, Mat3 (Vec3 1 0 0) (Vec3 0 1 0) (Vec3 0 0 (- 1))))
        (mm (Mat3 (Vec3 2 0 0) (Vec3 0 1 0) (Vec3 0 0 (- 1))) eye3))) \<le>
   matrix_norm (msub (mm (Mat3 (Vec3 2 0 0) (Vec3 0 1 0) (Vec3 0 0 (- 1))) eye3)
     (Mat3 (Vec3 0 (- 1) 0) (Vec3 1 0 0) (Vec3 0 0 1)))"
proof -
  let ?svd = "\<lambda>M :: mat3. (eye3, Vec3 2 1 1, Mat3 (Vec3 1 0 0) (Vec3 0 1 0) (Vec3 0 0 (- 1)))"
  let ?J = "Mat3 (Vec3 2 0 0) (Vec3 0 1 0) (Vec3 0 0 (- 1))"
  let ?Q = "Mat3 (Vec3 0 (- 1) 0) (Vec3 1 0 0) (Vec3 0 0 1)"
  have a: "svd_at ?svd (mm ?J eye3)"
    by (simp add: svd_at_def orthogonal3_def eye3_def diag3_def)
  then have h: "\<forall>(J, A) \<in> set (zip [?J] [eye3]). svd_at ?svd (mm J A)"
    by simp
  have q: "rotation3 ?Q"
    by (simp add: rotation3_def orthogonal3_def eye3_def)
  have r: "closest_rotation ?svd (mm ?J eye3) = eye3"
    by (simp add: closest_rotation_def Z_fix_def eye3_def)
  have v: "mean [matrix_norm (msub ?J (mm eye3 eye3))] = Inr (sqrt 5)"
    by (simp add: mean_def eye3_def)
  have "energy_loss ?svd [?J] [eye3] =
          mean [matrix_norm (msub ?J (mm (closest_rotation ?svd (mm ?J eye3)) eye3))] \<and>
        rotation3 (closest_rotation ?svd (mm ?J eye3)) \<and>
        (\<forall>Q. rotation3 Q \<longrightarrow>
           matrix_norm (msub (mm ?J eye3) (closest_rotation ?svd (mm ?J eye3))) \<le>
           matrix_norm (msub (mm ?J eye3) Q))"
    using energy_loss_residual [OF h] by (simp del: mm.simps)
  with a q show ?thesis
    unfolding r v by blast
qed

text \<open>
  The claim as stated fails for the Jacobian and the actuation both twice the identity:
  \<open>M = 4 I\<close> and its nearest proper rotation is \<open>R = I\<close>, so the distance of \<open>M\<close> from \<open>R\<close> is \<open>sqrt 27\<close>, while the code
  returns the distance of \<open>J = 2 I\<close> from \<open>R A = 2 I\<close>, which is \<open>0\<close>.
\<close>

theorem energy_loss_is_not_distance_of_product:
  "energy_loss svd_diag [example_scale2] [example_scale2] = Inr 0 \<and>
   mean (map (\<lambda>(J, A). matrix_norm (msub (mm J A) (closest_rotation svd_diag (mm J A))))
           (zip [example_scale2] [example_scale2])) = Inr (sqrt 27) \<and>
   energy_loss svd_diag [example_scale2] [example_scale2] \<noteq>
   mean (map (\<lambda>(J, A). matrix_norm (msub (mm J A) (closest_rotation svd_diag (mm J A))))
           (zip [example_scale2] [example_scale2]))"
proof -
  have r: "closest_rotation svd_diag (mm example_scale2 example_scale2) = eye3"
    by (simp add: closest_rotation_def svd_diag_def Z_fix_def eye3_def example_scale2_def)
  have e: "energy_loss svd_diag [example_scale2] [example_scale2] = Inr 0"
    unfolding energy_loss_per_sample
    by (simp add: r mean_def) (simp add: example_scale2_def eye3_def)
  have m: "mean (map (\<lambda>(J, A). matrix_norm (msub (mm J A) (closest_rotation svd_diag (mm J A))))
           (zip [example_scale2] [example_scale2])) = Inr (sqrt 27)"
    by (simp add: r mean_def) (simp add: example_scale2_def eye3_def)
  show ?thesis unfolding e m by simp
qed

end
